theory Spec2Isabelle
  imports Complex_Main "HOL-Library.AList" "HOL-Library.Monad_Syntax"
begin

section \<open>The paper-trading bot of app.py\<close>

text \<open>
  The script keeps three pieces of session state (cash balance, portfolio, trade log) and
  runs a momentum strategy over candles fetched from an exchange. Toasts, the status
  placeholder, charts and the wall-clock \<open>Time\<close> string of a log entry are display
  only and are left out.

  The script computes in binary64 floating point. Two readings of its arithmetic are
  given. The first reads every operation as exact on the reals; it carries the properties
  that no rounding can change: which definition trades how often, whether the watchlist
  is used, the sign of the balance, the number of positions, which positions the
  valuation skips. The second (the definitions named \<open>f64_\<close>) rounds every operation
  to binary64 as the script does; it carries every property about a computed amount, a
  funds test or a price threshold. In both, the NaN of a rolling mean over too few rows
  is \<open>None\<close>.
\<close>

subsection \<open>Configuration (lines 9 to 12)\<close>

definition START_CAPITAL :: real where
  "START_CAPITAL = 1000000"

definition MAX_POSITIONS :: nat where
  "MAX_POSITIONS = 4"

definition ALLOCATION_PER_TRADE :: real where
  "ALLOCATION_PER_TRADE = START_CAPITAL / real MAX_POSITIONS"

subsection \<open>Session state (lines 15 to 22)\<close>

type_synonym symbol = string

record position =
  amt :: real
  avg_price :: real

datatype side = BUY | SELL

record trade =
  Symbol :: symbol
  Type :: side
  Price :: real
  Qty :: real
  PL :: real

text \<open>
  The portfolio is a Python dict: keys are unique and keep their insertion order. It is an
  association list read with \<open>map_of\<close>, written with \<open>AList.update\<close> (replace in
  place, or append a new key) and \<open>AList.delete\<close>.
\<close>

record session_state =
  balance :: real
  portfolio :: "(symbol \<times> position) list"
  trade_log :: "trade list"
  is_running :: bool

definition initial_state :: session_state where
  "initial_state =
     \<lparr>balance = START_CAPITAL, portfolio = [], trade_log = [], is_running = False\<rparr>"

subsection \<open>The exchange (lines 26 to 49)\<close>

text \<open>
  What the exchange answers during one run of the script. A call that raises is
  \<open>None\<close>. A ticker's \<open>quoteVolume\<close> may be Python's \<open>None\<close>.
\<close>

record ticker =
  ticker_symbol :: symbol
  quoteVolume :: "real option"

record candle =
  timestamp :: int
  open_px :: real
  high :: real
  low :: real
  close :: real
  volume :: real

record exchange =
  fetch_tickers :: "(string \<times> ticker) list option"
  fetch_ohlcv :: "symbol \<Rightarrow> candle list option"

definition endswith :: "string \<Rightarrow> string \<Rightarrow> bool" where
  "endswith k suf =
     (length suf \<le> length k \<and> drop (length k - length suf) k = suf)"

text \<open>
  \<open>sorted(..., key=quoteVolume, reverse=True)\<close> is a stable sort in descending order.
  Comparing \<open>None\<close> raises TypeError, which happens as soon as two or more values are
  sorted and one of them has no volume; the \<open>except\<close> clause then returns the empty
  list.
\<close>

definition fetch_top_coins :: "exchange \<Rightarrow> nat \<Rightarrow> symbol list" where
  "fetch_top_coins ex limit =
     (case fetch_tickers ex of
        None \<Rightarrow> []
      | Some tickers \<Rightarrow>
          (let valid_tickers = filter (\<lambda>kv. endswith (fst kv) ''/USDT'') tickers;
               vals = map snd valid_tickers
           in if 2 \<le> length vals \<and> list_ex (\<lambda>x. quoteVolume x = None) vals then []
              else
                (let sorted_tickers = sort_key (\<lambda>x. - the (quoteVolume x)) vals
                 in map ticker_symbol (take limit sorted_tickers))))"

text \<open>The data frame is the list of its rows; \<open>df.empty\<close> is \<open>df = []\<close>.\<close>

definition get_market_data :: "exchange \<Rightarrow> symbol \<Rightarrow> candle list" where
  "get_market_data ex symbol =
     (case fetch_ohlcv ex symbol of None \<Rightarrow> [] | Some ohlcv \<Rightarrow> ohlcv)"

subsection \<open>The signal\<close>

text \<open>
  \<open>df['close'].rolling(window=5).mean().iloc[-1]\<close>: the mean of the last five closes,
  NaN when the frame has fewer than five rows. This is the exact mean; in the binary64
  reading the mean is whatever pandas computes (\<open>f64_rolling_mean_last\<close> below).
\<close>

definition rolling_mean_last :: "nat \<Rightarrow> real list \<Rightarrow> real option" where
  "rolling_mean_last w xs =
     (if length xs < w then None
      else Some (sum_list (drop (length xs - w) xs) / real w))"

text \<open>Every comparison with NaN is false.\<close>

definition nan_gt :: "real \<Rightarrow> real option \<Rightarrow> bool" where
  "nan_gt x y = (case y of None \<Rightarrow> False | Some v \<Rightarrow> v < x)"

definition nan_lt :: "real \<Rightarrow> real option \<Rightarrow> bool" where
  "nan_lt x y = (case y of None \<Rightarrow> False | Some v \<Rightarrow> x < v)"

text \<open>
  \<open>round(pnl, 2)\<close> on the exact value: to the nearest multiple of 0.01, a tie going
  to the even neighbour. The binary64 reading is \<open>f64_round2\<close> below.
\<close>

definition round_half_even :: "real \<Rightarrow> int" where
  "round_half_even x =
     (let f = \<lfloor>x\<rfloor>; d = x - of_int f
      in if d < 1 / 2 then f else if 1 / 2 < d then f + 1
         else if even f then f else f + 1)"

definition round2 :: "real \<Rightarrow> real" where
  "round2 x = of_int (round_half_even (x * 100)) / 100"

subsection \<open>The two definitions of run\_strategy\<close>

text \<open>
  The buy of both definitions (lines 69 to 82 and 186 to 198), in exact arithmetic; the
  binary64 reading is \<open>f64_buy\<close> below. The price is a numpy scalar, so a price of
  zero does not raise: the quantity is infinite, the cost is NaN and
  \<open>balance >= cost\<close> is false.
\<close>

definition buy :: "symbol \<Rightarrow> real \<Rightarrow> session_state \<Rightarrow> session_state option" where
  "buy symbol current_price st =
     (if current_price = 0 then None
      else
        (let qty = ALLOCATION_PER_TRADE / current_price;
             cost = qty * current_price
         in if cost \<le> balance st
            then Some (st\<lparr>balance := balance st - cost,
                   portfolio := AList.update symbol
                     \<lparr>amt = qty, avg_price = current_price\<rparr> (portfolio st),
                   trade_log := trade_log st @
                     [\<lparr>Symbol = symbol, Type = BUY, Price = current_price,
                       Qty = qty, PL = 0\<rparr>]\<rparr>)
            else None))"

text \<open>
  The sale of both definitions (lines 92 to 104 and 209 to 220), in exact arithmetic; the
  binary64 reading is \<open>f64_sell\<close> below. \<open>fmt\<close> is what the log entry does to
  the profit: \<open>round2\<close> in the first, nothing in the second.
\<close>

definition sell ::
  "(real \<Rightarrow> real) \<Rightarrow> symbol \<Rightarrow> real \<Rightarrow> position \<Rightarrow> session_state \<Rightarrow> session_state" where
  "sell fmt symbol current_price pos st =
     (let entry_price = avg_price pos;
          qty = amt pos;
          revenue = qty * current_price;
          pnl = revenue - qty * entry_price
      in st\<lparr>balance := balance st + revenue,
            portfolio := AList.delete symbol (portfolio st),
            trade_log := trade_log st @
              [\<lparr>Symbol = symbol, Type = SELL, Price = current_price,
                Qty = qty, PL = fmt pnl\<rparr>]\<rparr>)"

text \<open>One pass of the loop body of lines 55 to 105. It has no \<open>break\<close>.\<close>

definition strategy_step_1 :: "exchange \<Rightarrow> symbol \<Rightarrow> session_state \<Rightarrow> session_state" where
  "strategy_step_1 ex symbol st =
     (let df = get_market_data ex symbol
      in if df = [] then st
         else
           (let current_price = close (last df);
                sma_short = rolling_mean_last 5 (map close df)
            in case map_of (portfolio st) symbol of
                 None \<Rightarrow>
                   (if length (portfolio st) < MAX_POSITIONS \<and> nan_gt current_price sma_short
                    then (case buy symbol current_price st of
                            None \<Rightarrow> st | Some st' \<Rightarrow> st')
                    else st)
               | Some pos \<Rightarrow>
                   (if nan_lt current_price sma_short
                    then sell round2 symbol current_price pos st
                    else st)))"

fun scan_1 :: "exchange \<Rightarrow> symbol list \<Rightarrow> session_state \<Rightarrow> session_state" where
  "scan_1 ex [] st = st"
| "scan_1 ex (symbol # rest) st = scan_1 ex rest (strategy_step_1 ex symbol st)"

definition run_strategy_1 :: "exchange \<Rightarrow> session_state \<Rightarrow> session_state" where
  "run_strategy_1 ex st = scan_1 ex (fetch_top_coins ex 10) st"

text \<open>
  One pass of the loop body of lines 167 to 222; the flag says whether the pass ended in
  \<open>break\<close>. The profit target is the exact product here, the rounded one in
  \<open>f64_strategy_step_2\<close> below.
\<close>

definition strategy_step_2 ::
  "exchange \<Rightarrow> symbol \<Rightarrow> session_state \<Rightarrow> session_state \<times> bool" where
  "strategy_step_2 ex symbol st =
     (let df = get_market_data ex symbol
      in if df = [] then (st, False)
         else
           (let current_price = close (last df);
                sma_short = rolling_mean_last 5 (map close df)
            in case map_of (portfolio st) symbol of
                 None \<Rightarrow>
                   (if length (portfolio st) < MAX_POSITIONS \<and> nan_gt current_price sma_short
                    then (case buy symbol current_price st of
                            None \<Rightarrow> (st, False) | Some st' \<Rightarrow> (st', True))
                    else (st, False))
               | Some pos \<Rightarrow>
                   (if nan_lt current_price sma_short
                       \<or> avg_price pos * (1001 / 1000) < current_price
                    then (sell (\<lambda>pnl. pnl) symbol current_price pos st, True)
                    else (st, False))))"

fun scan_2 :: "exchange \<Rightarrow> symbol list \<Rightarrow> session_state \<Rightarrow> session_state" where
  "scan_2 ex [] st = st"
| "scan_2 ex (symbol # rest) st =
     (case strategy_step_2 ex symbol st of
        (st', brk) \<Rightarrow> if brk then st' else scan_2 ex rest st')"

definition default_watchlist :: "symbol list" where
  "default_watchlist = [''BTC/USDT'', ''ETH/USDT'', ''SOL/USDT'', ''DOGE/USDT'']"

definition run_strategy_2 :: "exchange \<Rightarrow> session_state \<Rightarrow> session_state" where
  "run_strategy_2 ex st =
     (let top_coins = fetch_top_coins ex 10;
          top_coins = (if top_coins = [] then default_watchlist else top_coins)
      in scan_2 ex top_coins st)"

subsection \<open>The script (lines 114 to 135)\<close>

text \<open>
  The valuation of line 121 keeps only the positions whose frame is not empty, and the
  metrics of lines 122 to 128 read the session state without assigning to it.
\<close>

definition current_holdings_val :: "exchange \<Rightarrow> session_state \<Rightarrow> real" where
  "current_holdings_val ex st =
     sum_list (map (\<lambda>sp. amt (snd sp) * close (last (get_market_data ex (fst sp))))
       (filter (\<lambda>sp. get_market_data ex (fst sp) \<noteq> []) (portfolio st)))"

record metrics =
  total_portfolio :: real
  pnl_total :: real
  cash_balance :: real
  active_positions :: nat

definition dashboard :: "exchange \<Rightarrow> session_state \<Rightarrow> session_state \<times> metrics" where
  "dashboard ex st =
     (let total = balance st + current_holdings_val ex st
      in (st, \<lparr>total_portfolio = total, pnl_total = total - START_CAPITAL,
               cash_balance = balance st, active_positions = length (portfolio st)\<rparr>))"

text \<open>
  The call of line 133 is reached before the second \<open>def\<close> of line 157 has been
  executed, and \<open>st.rerun()\<close> restarts the script from its first line: the function
  that trades is the one of lines 52 to 105.
\<close>

definition script_run ::
  "bool \<Rightarrow> bool \<Rightarrow> exchange \<Rightarrow> session_state \<Rightarrow> session_state \<times> metrics" where
  "script_run start_clicked stop_clicked ex st =
     (let st1 = (if start_clicked then st\<lparr>is_running := True\<rparr> else st);
          st2 = (if stop_clicked then st1\<lparr>is_running := False\<rparr> else st1);
          (st3, m) = dashboard ex st2
      in if is_running st3 then (run_strategy_1 ex st3, m) else (st3, m))"

subsection \<open>Either definition, and sequences of passes and cycles\<close>

text \<open>
  The file defines \<open>run_strategy\<close> twice. The properties below are stated for both
  definitions at once: \<open>Original\<close> is the one of lines 52 to 105, \<open>Revised\<close> the
  one of lines 157 to 225.
\<close>

datatype version = Original | Revised

definition step :: "version \<Rightarrow> exchange \<Rightarrow> symbol \<Rightarrow> session_state \<Rightarrow> session_state" where
  "step v ex symbol st =
     (case v of Original \<Rightarrow> strategy_step_1 ex symbol st
              | Revised \<Rightarrow> fst (strategy_step_2 ex symbol st))"

definition scan :: "version \<Rightarrow> exchange \<Rightarrow> symbol list \<Rightarrow> session_state \<Rightarrow> session_state" where
  "scan v ex symbols st =
     (case v of Original \<Rightarrow> scan_1 ex symbols st | Revised \<Rightarrow> scan_2 ex symbols st)"

definition cycle :: "version \<Rightarrow> exchange \<Rightarrow> session_state \<Rightarrow> session_state" where
  "cycle v ex st =
     (case v of Original \<Rightarrow> run_strategy_1 ex st | Revised \<Rightarrow> run_strategy_2 ex st)"

fun run_cycles :: "(version \<times> exchange) list \<Rightarrow> session_state \<Rightarrow> session_state" where
  "run_cycles [] st = st"
| "run_cycles (c # cs) st = run_cycles cs (cycle (fst c) (snd c) st)"

fun run_steps ::
  "(version \<times> exchange \<times> symbol) list \<Rightarrow> session_state \<Rightarrow> session_state" where
  "run_steps [] st = st"
| "run_steps (x # xs) st = run_steps xs (step (fst x) (fst (snd x)) (snd (snd x)) st)"

text \<open>The price a pass reads, and what a log entry does to the profit of a sale.\<close>

definition price_of :: "exchange \<Rightarrow> symbol \<Rightarrow> real" where
  "price_of ex symbol = close (last (get_market_data ex symbol))"

definition pl_format :: "version \<Rightarrow> real \<Rightarrow> real" where
  "pl_format v pnl = (case v of Original \<Rightarrow> round2 pnl | Revised \<Rightarrow> pnl)"

text \<open>Every close the exchange reports is nonnegative.\<close>

definition nonneg_closes :: "exchange \<Rightarrow> bool" where
  "nonneg_closes ex =
     (\<forall>symbol. list_all (\<lambda>c. 0 \<le> close c) (get_market_data ex symbol))"

definition cash_inv :: "session_state \<Rightarrow> bool" where
  "cash_inv st =
     (0 \<le> balance st \<and> list_all (\<lambda>sp. 0 \<le> amt (snd sp)) (portfolio st))"

subsection \<open>The purchase in binary64 arithmetic\<close>

text \<open>
  Python's \<open>float\<close> and numpy's \<open>float64\<close> round the exact result of every
  operation to the nearest binary64 number, a tie going to the even mantissa.
  \<open>f64_normalise\<close> scales a positive number by powers of two until its mantissa lies
  in \<open>[2^52, 2^53)\<close>, or until the smallest exponent, -1074, is reached; the fuel
  exceeds the range of binary64 exponents. \<open>None\<close> stands for a result that is not a
  finite number (an overflow, a division by zero).
\<close>

fun f64_normalise :: "nat \<Rightarrow> real \<Rightarrow> int \<Rightarrow> (real \<times> int) option" where
  "f64_normalise 0 m e = None"
| "f64_normalise (Suc fuel) m e =
     (if m < 2 ^ 52 \<and> - 1074 < e then f64_normalise fuel (m * 2) (e - 1)
      else if 2 ^ 53 \<le> m then f64_normalise fuel (m / 2) (e + 1)
      else Some (m, e))"

definition pow2 :: "int \<Rightarrow> real" where
  "pow2 e = (if 0 \<le> e then 2 ^ nat e else 1 / 2 ^ nat (- e))"

definition f64_round :: "real \<Rightarrow> real option" where
  "f64_round x =
     (if x = 0 then Some 0
      else case f64_normalise 2200 \<bar>x\<bar> 0 of
             None \<Rightarrow> None
           | Some (m, e) \<Rightarrow>
               (let r = sgn x * of_int (round_half_even m) * pow2 e
                in if 2 ^ 1024 \<le> \<bar>r\<bar> then None else Some r))"

definition f64_div :: "real \<Rightarrow> real \<Rightarrow> real option" where
  "f64_div a b = (if b = 0 then None else f64_round (a / b))"

definition f64_mul :: "real \<Rightarrow> real \<Rightarrow> real option" where
  "f64_mul a b = f64_round (a * b)"

definition f64_sub :: "real \<Rightarrow> real \<Rightarrow> real option" where
  "f64_sub a b = f64_round (a - b)"

text \<open>
  Lines 69 and 70, \<open>qty = ALLOCATION_PER_TRADE / current_price\<close> and
  \<open>cost = qty * current_price\<close>, and lines 72 and 73, the new balance of a purchase
  (\<open>None\<close> when the purchase is refused).
\<close>

definition f64_cost :: "real \<Rightarrow> real option" where
  "f64_cost current_price =
     (case f64_div ALLOCATION_PER_TRADE current_price of
        None \<Rightarrow> None
      | Some qty \<Rightarrow> f64_mul qty current_price)"

definition f64_buy_balance :: "real \<Rightarrow> real \<Rightarrow> real option" where
  "f64_buy_balance current_price bal =
     (case f64_cost current_price of
        None \<Rightarrow> None
      | Some cost \<Rightarrow> if cost \<le> bal then f64_sub bal cost else None)"

subsection \<open>The passes in binary64 arithmetic\<close>

text \<open>
  The loop bodies once more, with every product, quotient, sum and difference rounded to
  binary64. Comparisons are exact. A result \<open>None\<close> of a pass means that a stored
  value would not be a finite number; the model does not follow the script there. The
  sign of a zero is not kept: the one division, by the price, gives at a price of zero an
  infinite quantity and a cost that is NaN, whatever the sign.
\<close>

definition f64_add :: "real \<Rightarrow> real \<Rightarrow> real option" where
  "f64_add a b = f64_round (a + b)"

text \<open>The literal \<open>1.001\<close> of line 208: the binary64 number nearest to 1001/1000.\<close>

definition f64_profit_factor :: real where
  "f64_profit_factor = 2254051613498933 / 2 ^ 51"

text \<open>
  \<open>round(pnl, 2)\<close> of line 103 on a numpy scalar: multiply by 100, round to the
  nearest integer (a tie to the even one), divide by 100.
\<close>

definition f64_round2 :: "real \<Rightarrow> real option" where
  "f64_round2 x =
     do { y \<leftarrow> f64_mul x 100; f64_div (of_int (round_half_even y)) 100 }"

text \<open>
  The rolling mean is computed by pandas, not by the script. It is taken as given:
  \<open>rolling_mean w xs\<close> is the last value pandas computes for a column \<open>xs\<close> of at
  least \<open>w\<close> rows (\<open>None\<close> when it is NaN). With fewer rows the value is NaN.
\<close>

definition f64_rolling_mean_last ::
  "(nat \<Rightarrow> real list \<Rightarrow> real option) \<Rightarrow> nat \<Rightarrow> real list \<Rightarrow> real option" where
  "f64_rolling_mean_last rolling_mean w xs =
     (if length xs < w then None else rolling_mean w xs)"

text \<open>
  Lines 69 to 82 and 186 to 200; the flag says whether the purchase was made. An infinite
  quantity gives a cost that is infinite or NaN, and the funds test is false.
\<close>

definition f64_buy :: "symbol \<Rightarrow> real \<Rightarrow> session_state \<Rightarrow> (session_state \<times> bool) option" where
  "f64_buy symbol current_price st =
     (case f64_div ALLOCATION_PER_TRADE current_price of
        None \<Rightarrow> Some (st, False)
      | Some qty \<Rightarrow>
          (case f64_mul qty current_price of
             None \<Rightarrow> Some (st, False)
           | Some cost \<Rightarrow>
               if cost \<le> balance st
               then do {
                 b \<leftarrow> f64_sub (balance st) cost;
                 Some (st\<lparr>balance := b,
                         portfolio := AList.update symbol
                           \<lparr>amt = qty, avg_price = current_price\<rparr> (portfolio st),
                         trade_log := trade_log st @
                           [\<lparr>Symbol = symbol, Type = BUY, Price = current_price,
                             Qty = qty, PL = 0\<rparr>]\<rparr>, True)
               }
               else Some (st, False)))"

text \<open>Lines 92 to 104 and 209 to 220; \<open>fmt\<close> is what the log entry does to the profit.\<close>

definition f64_sell ::
  "(real \<Rightarrow> real option) \<Rightarrow> symbol \<Rightarrow> real \<Rightarrow> position \<Rightarrow> session_state
     \<Rightarrow> session_state option" where
  "f64_sell fmt symbol current_price pos st =
     do {
       revenue \<leftarrow> f64_mul (amt pos) current_price;
       basis \<leftarrow> f64_mul (amt pos) (avg_price pos);
       pnl \<leftarrow> f64_sub revenue basis;
       b \<leftarrow> f64_add (balance st) revenue;
       pl \<leftarrow> fmt pnl;
       Some (st\<lparr>balance := b,
               portfolio := AList.delete symbol (portfolio st),
               trade_log := trade_log st @
                 [\<lparr>Symbol = symbol, Type = SELL, Price = current_price,
                   Qty = amt pos, PL = pl\<rparr>]\<rparr>)
     }"

text \<open>One pass of the loop body of lines 55 to 105.\<close>

definition f64_strategy_step_1 ::
  "(nat \<Rightarrow> real list \<Rightarrow> real option) \<Rightarrow> exchange \<Rightarrow> symbol \<Rightarrow> session_state
     \<Rightarrow> session_state option" where
  "f64_strategy_step_1 rolling_mean ex symbol st =
     (let df = get_market_data ex symbol
      in if df = [] then Some st
         else
           (let current_price = close (last df);
                sma_short = f64_rolling_mean_last rolling_mean 5 (map close df)
            in case map_of (portfolio st) symbol of
                 None \<Rightarrow>
                   (if length (portfolio st) < MAX_POSITIONS \<and> nan_gt current_price sma_short
                    then map_option fst (f64_buy symbol current_price st)
                    else Some st)
               | Some pos \<Rightarrow>
                   (if nan_lt current_price sma_short
                    then f64_sell f64_round2 symbol current_price pos st
                    else Some st)))"

text \<open>
  One pass of the loop body of lines 167 to 222. The \<open>or\<close> of line 208 evaluates the
  profit target only when the price is not below the mean.
\<close>

definition f64_strategy_step_2 ::
  "(nat \<Rightarrow> real list \<Rightarrow> real option) \<Rightarrow> exchange \<Rightarrow> symbol \<Rightarrow> session_state
     \<Rightarrow> (session_state \<times> bool) option" where
  "f64_strategy_step_2 rolling_mean ex symbol st =
     (let df = get_market_data ex symbol
      in if df = [] then Some (st, False)
         else
           (let current_price = close (last df);
                sma_short = f64_rolling_mean_last rolling_mean 5 (map close df)
            in case map_of (portfolio st) symbol of
                 None \<Rightarrow>
                   (if length (portfolio st) < MAX_POSITIONS \<and> nan_gt current_price sma_short
                    then f64_buy symbol current_price st
                    else Some (st, False))
               | Some pos \<Rightarrow>
                   (if nan_lt current_price sma_short
                    then map_option (\<lambda>st'. (st', True)) (f64_sell Some symbol current_price pos st)
                    else do {
                      target \<leftarrow> f64_mul (avg_price pos) f64_profit_factor;
                      if target < current_price
                      then map_option (\<lambda>st'. (st', True))
                             (f64_sell Some symbol current_price pos st)
                      else Some (st, False)
                    })))"

definition f64_step ::
  "(nat \<Rightarrow> real list \<Rightarrow> real option) \<Rightarrow> version \<Rightarrow> exchange \<Rightarrow> symbol \<Rightarrow> session_state
     \<Rightarrow> session_state option" where
  "f64_step rolling_mean v ex symbol st =
     (case v of
        Original \<Rightarrow> f64_strategy_step_1 rolling_mean ex symbol st
      | Revised \<Rightarrow> map_option fst (f64_strategy_step_2 rolling_mean ex symbol st))"

fun f64_run_steps ::
  "(nat \<Rightarrow> real list \<Rightarrow> real option) \<Rightarrow> (version \<times> exchange \<times> symbol) list \<Rightarrow> session_state
     \<Rightarrow> session_state option" where
  "f64_run_steps rolling_mean [] st = Some st"
| "f64_run_steps rolling_mean (x # xs) st =
     do { st' \<leftarrow> f64_step rolling_mean (fst x) (fst (snd x)) (snd (snd x)) st;
          f64_run_steps rolling_mean xs st' }"

definition f64_pl_format :: "version \<Rightarrow> real \<Rightarrow> real option" where
  "f64_pl_format v pnl = (case v of Original \<Rightarrow> f64_round2 pnl | Revised \<Rightarrow> Some pnl)"

subsection \<open>Example inputs\<close>

definition candle_at :: "real \<Rightarrow> candle" where
  "candle_at c =
     \<lparr>timestamp = 0, open_px = c, high = c, low = c, close = c, volume = 1\<rparr>"

definition usdt_ticker :: "symbol \<Rightarrow> real \<Rightarrow> string \<times> ticker" where
  "usdt_ticker name vol = (name, \<lparr>ticker_symbol = name, quoteVolume = Some vol\<rparr>)"

definition example_tickers :: "(string \<times> ticker) list" where
  "example_tickers =
     [usdt_ticker ''AAA/USDT'' 5, usdt_ticker ''BBB/USDT'' 9, usdt_ticker ''CCC/BTC'' 20]"

text \<open>Last close 110 above the five-candle mean 102, for every symbol.\<close>

definition ex_bullish :: exchange where
  "ex_bullish =
     \<lparr>fetch_tickers = Some example_tickers,
      fetch_ohlcv = (\<lambda>s. Some (map candle_at [100, 100, 100, 100, 100, 110]))\<rparr>"

text \<open>Last close 95 below the five-candle mean 100, for every symbol.\<close>

definition ex_bearish :: exchange where
  "ex_bearish =
     \<lparr>fetch_tickers = Some example_tickers,
      fetch_ohlcv = (\<lambda>s. Some (map candle_at [100, 100, 100, 105, 95]))\<rparr>"

text \<open>The ticker call raises; candles are as in \<open>ex_bullish\<close>.\<close>

definition ex_no_ranking :: exchange where
  "ex_no_ranking =
     \<lparr>fetch_tickers = None,
      fetch_ohlcv = (\<lambda>s. Some (map candle_at [100, 100, 100, 100, 100, 110]))\<rparr>"

text \<open>Every call raises.\<close>

definition ex_down :: exchange where
  "ex_down = \<lparr>fetch_tickers = None, fetch_ohlcv = (\<lambda>s. None)\<rparr>"

text \<open>A single candle, at 120, for every symbol.\<close>

definition ex_short :: exchange where
  "ex_short =
     \<lparr>fetch_tickers = Some example_tickers,
      fetch_ohlcv = (\<lambda>s. Some [candle_at 120])\<rparr>"

text \<open>The session after one purchase of BBB/USDT at 110.\<close>

definition st_held :: session_state where
  "st_held =
     \<lparr>balance = 750000,
      portfolio = [(''BBB/USDT'', \<lparr>amt = 25000 / 11, avg_price = 110\<rparr>)],
      trade_log = [\<lparr>Symbol = ''BBB/USDT'', Type = BUY, Price = 110,
                    Qty = 25000 / 11, PL = 0\<rparr>],
      is_running = False\<rparr>"

text \<open>A session with no position and less cash than one allocation.\<close>

definition st_low_cash :: session_state where
  "st_low_cash =
     \<lparr>balance = 200000, portfolio = [], trade_log = [], is_running = False\<rparr>"

text \<open>A rolling mean for the examples: the exact mean of the window, rounded once.\<close>

definition rounded_mean :: "nat \<Rightarrow> real list \<Rightarrow> real option" where
  "rounded_mean w xs = f64_round (sum_list (drop (length xs - w) xs) / real w)"

text \<open>
  The binary64 values of a purchase at 110 followed by a sale at 95 or at 120:
  the quantity 2272.7272727272725, the entry value 249999.99999999997, and for each sale
  the revenue, the profit and the new balance; \<open>f64_logged_95\<close> is -34090.91.
\<close>

definition f64_qty_110 :: real where
  "f64_qty_110 = 4997780126254545 / 2 ^ 41"

definition f64_basis_110 :: real where
  "f64_basis_110 = 8589934591999999 / 2 ^ 35"

definition f64_revenue_95 :: real where
  "f64_revenue_95 = 3709289937454545 / 2 ^ 34"

definition f64_pnl_95 :: real where
  "f64_pnl_95 = - (1171354717090909 / 2 ^ 35)"

definition f64_logged_95 :: real where
  "f64_logged_95 = - (1171354748327035 / 2 ^ 35)"

definition f64_balance_95 :: real where
  "f64_balance_95 = 1037136989090909 / 2 ^ 30"

definition f64_revenue_120 :: real where
  "f64_revenue_120 = 1171354717090909 / 2 ^ 32"

definition f64_pnl_120 :: real where
  "f64_pnl_120 = 780903144727273 / 2 ^ 35"

definition f64_balance_120 :: real where
  "f64_balance_120 = 4392580189090909 / 2 ^ 32"

text \<open>The session after one purchase of BBB/USDT at 110, in binary64.\<close>

definition f64_st_held :: session_state where
  "f64_st_held =
     \<lparr>balance = 750000,
      portfolio = [(''BBB/USDT'', \<lparr>amt = f64_qty_110, avg_price = 110\<rparr>)],
      trade_log = [\<lparr>Symbol = ''BBB/USDT'', Type = BUY, Price = 110,
                    Qty = f64_qty_110, PL = 0\<rparr>],
      is_running = False\<rparr>"

text \<open>That session after the first definition has sold at 95.\<close>

definition f64_st_sold_95 :: session_state where
  "f64_st_sold_95 =
     \<lparr>balance = f64_balance_95,
      portfolio = [],
      trade_log = [\<lparr>Symbol = ''BBB/USDT'', Type = BUY, Price = 110,
                    Qty = f64_qty_110, PL = 0\<rparr>,
                   \<lparr>Symbol = ''BBB/USDT'', Type = SELL, Price = 95,
                    Qty = f64_qty_110, PL = f64_logged_95\<rparr>],
      is_running = False\<rparr>"

text \<open>That session after the second definition has sold at 120.\<close>

definition f64_st_sold_120 :: session_state where
  "f64_st_sold_120 =
     \<lparr>balance = f64_balance_120,
      portfolio = [],
      trade_log = [\<lparr>Symbol = ''BBB/USDT'', Type = BUY, Price = 110,
                    Qty = f64_qty_110, PL = 0\<rparr>,
                   \<lparr>Symbol = ''BBB/USDT'', Type = SELL, Price = 120,
                    Qty = f64_qty_110, PL = f64_pnl_120\<rparr>],
      is_running = False\<rparr>"

section \<open>Properties\<close>

lemma ALLOCATION_PER_TRADE_value: "ALLOCATION_PER_TRADE = 250000"
  by (simp add: ALLOCATION_PER_TRADE_def START_CAPITAL_def MAX_POSITIONS_def)


subsection \<open>Evaluating the example inputs\<close>

lemmas strategy_defs =
  strategy_step_1_def strategy_step_2_def buy_def sell_def Let_def
  rolling_mean_last_def nan_gt_def nan_lt_def candle_at_def
  START_CAPITAL_def MAX_POSITIONS_def ALLOCATION_PER_TRADE_def

lemma example_top_coins:
  "fetch_top_coins ex_bullish 10 = [''BBB/USDT'', ''AAA/USDT'']"
  "fetch_top_coins ex_bearish 10 = [''BBB/USDT'', ''AAA/USDT'']"
  "fetch_top_coins ex_short 10 = [''BBB/USDT'', ''AAA/USDT'']"
  "fetch_top_coins ex_no_ranking 10 = []"
  "fetch_top_coins ex_down 10 = []"
  by (simp_all add: fetch_top_coins_def ex_bullish_def ex_bearish_def ex_short_def
      ex_no_ranking_def ex_down_def example_tickers_def usdt_ticker_def endswith_def)

lemma example_market_data:
  "get_market_data ex_bullish s = map candle_at [100, 100, 100, 100, 100, 110]"
  "get_market_data ex_bearish s = map candle_at [100, 100, 100, 105, 95]"
  "get_market_data ex_no_ranking s = map candle_at [100, 100, 100, 100, 100, 110]"
  "get_market_data ex_short s = [candle_at 120]"
  "get_market_data ex_down s = []"
  by (simp_all add: get_market_data_def ex_bullish_def ex_bearish_def ex_short_def
      ex_no_ranking_def ex_down_def)

lemma example_nonneg_closes:
  "nonneg_closes ex_bullish" "nonneg_closes ex_bearish"
  by (simp_all add: nonneg_closes_def example_market_data candle_at_def)

lemma st_held_reached: "run_strategy_2 ex_bullish initial_state = st_held"
  by (simp add: run_strategy_2_def example_top_coins example_market_data strategy_defs
      initial_state_def st_held_def)

subsection \<open>The cash invariant\<close>

lemma list_all_update:
  "list_all P al \<Longrightarrow> P (k, v) \<Longrightarrow> list_all P (AList.update k v al)"
  by (induction al) auto

lemma list_all_delete: "list_all P al \<Longrightarrow> list_all P (AList.delete k al)"
  by (simp add: AList.delete_eq list_all_iff)

lemma sum_list_nonneg_all: "list_all (\<lambda>x. (0::real) \<le> x) xs \<Longrightarrow> 0 \<le> sum_list xs"
  by (induction xs) auto

text \<open>A price above a mean of nonnegative closes is positive.\<close>

lemma nan_gt_pos:
  assumes "list_all (\<lambda>c. 0 \<le> close c) df"
    and "nan_gt p (rolling_mean_last w (map close df))"
  shows "0 < p"
proof -
  from assms(2) obtain m
    where m: "rolling_mean_last w (map close df) = Some m" and lt: "m < p"
    by (auto simp: nan_gt_def split: option.splits)
  let ?tl = "drop (length (map close df) - w) (map close df)"
  have "list_all (\<lambda>x. 0 \<le> x) ?tl"
    using assms(1) by (auto simp: list_all_iff dest!: in_set_dropD)
  then have "0 \<le> sum_list ?tl" by (rule sum_list_nonneg_all)
  moreover have "m = sum_list ?tl / real w"
    using m by (auto simp: rolling_mean_last_def split: if_splits)
  ultimately have "0 \<le> m" by simp
  with lt show ?thesis by simp
qed

lemma buy_Some:
  assumes "buy symbol p st = Some st'"
  shows "p \<noteq> 0" and "ALLOCATION_PER_TRADE / p * p \<le> balance st"
    and "st' = st\<lparr>balance := balance st - ALLOCATION_PER_TRADE / p * p,
                 portfolio := AList.update symbol
                   \<lparr>amt = ALLOCATION_PER_TRADE / p, avg_price = p\<rparr> (portfolio st),
                 trade_log := trade_log st @
                   [\<lparr>Symbol = symbol, Type = BUY, Price = p,
                     Qty = ALLOCATION_PER_TRADE / p, PL = 0\<rparr>]\<rparr>"
  using assms by (auto simp: buy_def Let_def split: if_splits)

lemma buy_cash_inv:
  assumes "cash_inv st" and "0 < p" and "buy symbol p st = Some st'"
  shows "cash_inv st'"
proof -
  have q: "0 \<le> ALLOCATION_PER_TRADE / p"
    using assms(2) by (simp add: ALLOCATION_PER_TRADE_value)
  show ?thesis
    using assms(1) q buy_Some(2) [OF assms(3)] unfolding buy_Some(3) [OF assms(3)] cash_inv_def
    by (simp add: list_all_update)
qed

lemma sell_cash_inv:
  assumes "cash_inv st" and "0 \<le> p" and "map_of (portfolio st) symbol = Some pos"
  shows "cash_inv (sell fmt symbol p pos st)"
proof -
  have "(symbol, pos) \<in> set (portfolio st)" using assms(3) by (rule map_of_SomeD)
  with assms(1) have "0 \<le> amt pos" by (auto simp: cash_inv_def list_all_iff)
  with assms(2) have "0 \<le> amt pos * p" by simp
  with assms(1) show ?thesis
    by (simp add: sell_def cash_inv_def Let_def list_all_delete)
qed

lemma last_nonneg:
  "list_all (\<lambda>c. 0 \<le> close c) df \<Longrightarrow> df \<noteq> [] \<Longrightarrow> 0 \<le> close (last df)"
  by (simp add: list_all_iff)

lemma step_1_cash_inv:
  assumes "nonneg_closes ex" and "cash_inv st"
  shows "cash_inv (strategy_step_1 ex symbol st)"
proof -
  have df: "list_all (\<lambda>c. 0 \<le> close c) (get_market_data ex symbol)"
    using assms(1) by (simp add: nonneg_closes_def)
  show ?thesis
    using assms(2) df
    by (auto simp: strategy_step_1_def Let_def last_nonneg
        split: option.splits intro: buy_cash_inv sell_cash_inv dest: nan_gt_pos)
qed

lemma step_2_cash_inv:
  assumes "nonneg_closes ex" and "cash_inv st"
  shows "cash_inv (fst (strategy_step_2 ex symbol st))"
proof -
  have df: "list_all (\<lambda>c. 0 \<le> close c) (get_market_data ex symbol)"
    using assms(1) by (simp add: nonneg_closes_def)
  show ?thesis
    using assms(2) df
    by (auto simp: strategy_step_2_def Let_def last_nonneg
        split: option.splits intro: buy_cash_inv sell_cash_inv dest: nan_gt_pos)
qed

lemma scan_1_cash_inv:
  "nonneg_closes ex \<Longrightarrow> cash_inv st \<Longrightarrow> cash_inv (scan_1 ex symbols st)"
  by (induction symbols arbitrary: st) (simp_all add: step_1_cash_inv)

lemma scan_2_cash_inv:
  "nonneg_closes ex \<Longrightarrow> cash_inv st \<Longrightarrow> cash_inv (scan_2 ex symbols st)"
proof (induction symbols arbitrary: st)
  case Nil
  then show ?case by simp
next
  case (Cons symbol rest)
  have "cash_inv (fst (strategy_step_2 ex symbol st))"
    using Cons.prems by (rule step_2_cash_inv)
  then show ?case
    using Cons.IH [OF Cons.prems(1)] by (auto split: prod.splits)
qed

lemma scan_cash_inv:
  "nonneg_closes ex \<Longrightarrow> cash_inv st \<Longrightarrow> cash_inv (scan v ex symbols st)"
  by (cases v) (simp_all add: scan_def scan_1_cash_inv scan_2_cash_inv)

lemma cycle_cash_inv:
  "nonneg_closes ex \<Longrightarrow> cash_inv st \<Longrightarrow> cash_inv (cycle v ex st)"
  by (cases v) (simp_all add: cycle_def run_strategy_1_def run_strategy_2_def Let_def
      scan_1_cash_inv scan_2_cash_inv)

lemma run_cycles_cash_inv:
  "list_all (\<lambda>c. nonneg_closes (snd c)) cycles \<Longrightarrow> cash_inv st
     \<Longrightarrow> cash_inv (run_cycles cycles st)"
  by (induction cycles arbitrary: st) (simp_all add: cycle_cash_inv)

lemma initial_cash_inv: "cash_inv initial_state"
  by (simp add: cash_inv_def initial_state_def START_CAPITAL_def)

text \<open>
  Claim C5. Start from the initial session and run any sequence of cycles, each with
  either definition of \<open>run_strategy\<close> and an exchange whose closes are nonnegative, and
  then any number of passes of the loop of a further cycle (\<open>symbols\<close> is the part of
  the ranking scanned so far). The cash balance is not negative. Every state the program
  reaches, between two cycles or inside one, has this form.
\<close>

theorem cash_never_negative:
  assumes "list_all (\<lambda>c. nonneg_closes (snd c)) cycles" and "nonneg_closes ex"
  shows "0 \<le> balance (scan v ex symbols (run_cycles cycles initial_state))"
proof -
  have "cash_inv (run_cycles cycles initial_state)"
    using assms(1) initial_cash_inv by (rule run_cycles_cash_inv)
  then have "cash_inv (scan v ex symbols (run_cycles cycles initial_state))"
    using assms(2) by (simp add: scan_cash_inv)
  then show ?thesis by (simp add: cash_inv_def)
qed

theorem cash_never_negative_witness:
  "list_all (\<lambda>c. nonneg_closes (snd c)) [(Revised, ex_bullish), (Original, ex_bearish)]
   \<and> nonneg_closes ex_bullish
   \<and> 0 \<le> balance (scan Original ex_bullish [''AAA/USDT'']
            (run_cycles [(Revised, ex_bullish), (Original, ex_bearish)] initial_state))
   \<and> balance (run_cycles [(Revised, ex_bullish), (Original, ex_bearish)] initial_state)
       = 750000 + 25000 / 11 * 95"
proof -
  have h: "list_all (\<lambda>c. nonneg_closes (snd c)) [(Revised, ex_bullish), (Original, ex_bearish)]"
    by (simp add: example_nonneg_closes)
  have b: "balance (run_cycles [(Revised, ex_bullish), (Original, ex_bearish)] initial_state)
       = 750000 + 25000 / 11 * 95"
    by (simp add: cycle_def st_held_reached run_strategy_1_def example_top_coins
        example_market_data strategy_defs st_held_def)
  show ?thesis
    using h b example_nonneg_closes(1)
      cash_never_negative [OF h example_nonneg_closes(1), of Original "[''AAA/USDT'']"]
    by simp
qed

subsection \<open>The passes of the loop\<close>

lemma length_update_absent:
  "map_of al k = None \<Longrightarrow> length (AList.update k v al) = Suc (length al)"
  by (induction al) (auto split: if_splits)

lemma step_1_cases:
  "strategy_step_1 ex symbol st = st
   \<or> (map_of (portfolio st) symbol = None \<and> length (portfolio st) < MAX_POSITIONS
      \<and> buy symbol (price_of ex symbol) st = Some (strategy_step_1 ex symbol st))
   \<or> (\<exists>pos. map_of (portfolio st) symbol = Some pos
      \<and> strategy_step_1 ex symbol st = sell round2 symbol (price_of ex symbol) pos st)"
  by (auto simp: strategy_step_1_def price_of_def Let_def split: option.splits)

lemma step_2_cases:
  "strategy_step_2 ex symbol st = (st, False)
   \<or> (map_of (portfolio st) symbol = None \<and> length (portfolio st) < MAX_POSITIONS
      \<and> buy symbol (price_of ex symbol) st = Some (fst (strategy_step_2 ex symbol st))
      \<and> snd (strategy_step_2 ex symbol st))
   \<or> (\<exists>pos. map_of (portfolio st) symbol = Some pos
      \<and> strategy_step_2 ex symbol st
          = (sell (\<lambda>pnl. pnl) symbol (price_of ex symbol) pos st, True))"
  by (auto simp: strategy_step_2_def price_of_def Let_def split: option.splits)

lemma step_cases:
  "step v ex symbol st = st
   \<or> (map_of (portfolio st) symbol = None \<and> length (portfolio st) < MAX_POSITIONS
      \<and> buy symbol (price_of ex symbol) st = Some (step v ex symbol st))
   \<or> (\<exists>pos. map_of (portfolio st) symbol = Some pos
      \<and> step v ex symbol st = sell (pl_format v) symbol (price_of ex symbol) pos st)"
proof (cases v)
  case Original
  have "pl_format Original = round2" by (rule ext) (simp add: pl_format_def)
  then show ?thesis
    using step_1_cases [of ex symbol st] Original by (simp add: step_def)
next
  case Revised
  have "pl_format Revised = (\<lambda>pnl. pnl)" by (rule ext) (simp add: pl_format_def)
  then show ?thesis
    using step_2_cases [of ex symbol st] Revised by (auto simp: step_def)
qed

lemma buy_effect:
  assumes "buy symbol p st = Some st'"
  shows "balance st' = balance st - ALLOCATION_PER_TRADE / p * p"
    and "portfolio st' = AList.update symbol
           \<lparr>amt = ALLOCATION_PER_TRADE / p, avg_price = p\<rparr> (portfolio st)"
    and "trade_log st' = trade_log st @
           [\<lparr>Symbol = symbol, Type = BUY, Price = p, Qty = ALLOCATION_PER_TRADE / p, PL = 0\<rparr>]"
  by (simp_all add: buy_Some(3) [OF assms])

lemma sell_effect:
  "balance (sell fmt symbol p pos st) = balance st + amt pos * p"
  "portfolio (sell fmt symbol p pos st) = AList.delete symbol (portfolio st)"
  "trade_log (sell fmt symbol p pos st) = trade_log st @
     [\<lparr>Symbol = symbol, Type = SELL, Price = p, Qty = amt pos,
       PL = fmt (amt pos * p - amt pos * avg_price pos)\<rparr>]"
  by (simp_all add: sell_def Let_def)

text \<open>Position count.\<close>

lemma step_count:
  assumes "length (portfolio st) \<le> MAX_POSITIONS"
  shows "length (portfolio (step v ex symbol st)) \<le> MAX_POSITIONS"
  using step_cases [of v ex symbol st]
proof (elim disjE conjE exE)
  assume "step v ex symbol st = st"
  with assms show ?thesis by simp
next
  assume "map_of (portfolio st) symbol = None" and "length (portfolio st) < MAX_POSITIONS"
    and "buy symbol (price_of ex symbol) st = Some (step v ex symbol st)"
  then show ?thesis
    by (simp add: buy_effect(2) length_update_absent)
next
  fix pos
  assume "step v ex symbol st = sell (pl_format v) symbol (price_of ex symbol) pos st"
  then have "length (portfolio (step v ex symbol st)) \<le> length (portfolio st)"
    by (simp add: sell_effect(2) length_delete_le)
  with assms show ?thesis by simp
qed

lemma run_steps_count:
  "length (portfolio st) \<le> MAX_POSITIONS
     \<Longrightarrow> length (portfolio (run_steps xs st)) \<le> MAX_POSITIONS"
  by (induction xs arbitrary: st) (simp_all add: step_count)

lemma run_steps_append: "run_steps (xs @ ys) st = run_steps ys (run_steps xs st)"
  by (induction xs arbitrary: st) simp_all

lemma scan_1_is_steps:
  "scan_1 ex symbols st = run_steps (map (\<lambda>s. (Original, ex, s)) symbols) st"
  by (induction symbols arbitrary: st) (simp_all add: step_def)

lemma scan_2_is_steps:
  "\<exists>n. scan_2 ex symbols st = run_steps (map (\<lambda>s. (Revised, ex, s)) (take n symbols)) st"
proof (induction symbols arbitrary: st)
  case Nil
  then show ?case by simp
next
  case (Cons symbol rest)
  obtain st' brk where s: "strategy_step_2 ex symbol st = (st', brk)"
    by (cases "strategy_step_2 ex symbol st")
  show ?case
  proof (cases brk)
    case True
    then have "scan_2 ex (symbol # rest) st
      = run_steps (map (\<lambda>s. (Revised, ex, s)) (take 1 (symbol # rest))) st"
      using s by (simp add: step_def)
    then show ?thesis by blast
  next
    case False
    from Cons.IH [of st'] obtain n
      where "scan_2 ex rest st' = run_steps (map (\<lambda>s. (Revised, ex, s)) (take n rest)) st'"
      by blast
    then have "scan_2 ex (symbol # rest) st
      = run_steps (map (\<lambda>s. (Revised, ex, s)) (take (Suc n) (symbol # rest))) st"
      using s False by (simp add: step_def)
    then show ?thesis by blast
  qed
qed

lemma scan_2_steps_ex: "\<exists>xs. scan_2 ex symbols st = run_steps xs st"
  using scan_2_is_steps [of ex symbols st] by blast

lemma scan_is_steps: "\<exists>xs. scan v ex symbols st = run_steps xs st"
proof (cases v)
  case Original
  then show ?thesis using scan_1_is_steps [of ex symbols st] by (auto simp: scan_def)
next
  case Revised
  then show ?thesis by (simp add: scan_def scan_2_steps_ex)
qed

lemma cycle_is_steps: "\<exists>xs. cycle v ex st = run_steps xs st"
proof (cases v)
  case Original
  then show ?thesis
    using scan_1_is_steps [of ex "fetch_top_coins ex 10" st]
    by (auto simp: cycle_def run_strategy_1_def)
next
  case Revised
  then show ?thesis
    by (simp add: cycle_def run_strategy_2_def Let_def scan_2_steps_ex)
qed

lemma run_cycles_is_steps: "\<exists>xs. run_cycles cycles st = run_steps xs st"
proof (induction cycles arbitrary: st)
  case Nil
  have "run_cycles [] st = run_steps [] st" by simp
  then show ?case by blast
next
  case (Cons c cs)
  obtain xs where xs: "cycle (fst c) (snd c) st = run_steps xs st"
    using cycle_is_steps by blast
  obtain ys where "run_cycles cs (run_steps xs st) = run_steps ys (run_steps xs st)"
    using Cons.IH by blast
  then have "run_cycles (c # cs) st = run_steps (xs @ ys) st"
    using xs by (simp add: run_steps_append)
  then show ?case by blast
qed

lemma reachable_is_steps:
  "\<exists>xs. scan v ex symbols (run_cycles cycles st) = run_steps xs st"
proof -
  obtain xs where xs: "run_cycles cycles st = run_steps xs st"
    using run_cycles_is_steps by blast
  obtain ys where "scan v ex symbols (run_steps xs st) = run_steps ys (run_steps xs st)"
    using scan_is_steps by blast
  then have "scan v ex symbols (run_cycles cycles st) = run_steps (xs @ ys) st"
    using xs by (simp add: run_steps_append)
  then show ?thesis by blast
qed

lemma step_distinct:
  assumes "distinct (map fst (portfolio st))"
  shows "distinct (map fst (portfolio (step v ex symbol st)))"
  using step_cases [of v ex symbol st]
proof (elim disjE conjE exE)
  assume "step v ex symbol st = st"
  with assms show ?thesis by simp
next
  assume "buy symbol (price_of ex symbol) st = Some (step v ex symbol st)"
  with assms show ?thesis by (simp add: buy_effect(2) distinct_update)
next
  fix pos
  assume "step v ex symbol st = sell (pl_format v) symbol (price_of ex symbol) pos st"
  with assms show ?thesis by (simp add: sell_effect(2) distinct_delete)
qed

lemma run_steps_distinct:
  "distinct (map fst (portfolio st)) \<Longrightarrow> distinct (map fst (portfolio (run_steps xs st)))"
  by (induction xs arbitrary: st) (simp_all add: step_distinct)

text \<open>
  Claim C9. In every state reached from the initial session by any sequence of cycles
  (of either definition) followed by any number of passes of a further cycle, the
  portfolio holds at most \<open>MAX_POSITIONS\<close> positions, each under a key of its own.
  A pass that logs a BUY started with fewer than \<open>MAX_POSITIONS\<close> positions, and a
  pass that leaves more positions than it found has logged a BUY.
\<close>

theorem position_count_bounded:
  "length (portfolio (scan v ex symbols (run_cycles cycles initial_state))) \<le> MAX_POSITIONS
   \<and> distinct (map fst (portfolio (scan v ex symbols (run_cycles cycles initial_state))))
   \<and> ((\<exists>b. trade_log (step v' ex' symbol st) = trade_log st @ [b] \<and> Type b = BUY)
        \<longrightarrow> length (portfolio st) < MAX_POSITIONS)
   \<and> (length (portfolio st) < length (portfolio (step v' ex' symbol st))
        \<longrightarrow> (\<exists>b. trade_log (step v' ex' symbol st) = trade_log st @ [b] \<and> Type b = BUY))"
proof (intro conjI impI)
  obtain xs where xs: "scan v ex symbols (run_cycles cycles initial_state)
      = run_steps xs initial_state"
    using reachable_is_steps by blast
  have "length (portfolio initial_state) \<le> MAX_POSITIONS"
    by (simp add: initial_state_def)
  then show
    "length (portfolio (scan v ex symbols (run_cycles cycles initial_state))) \<le> MAX_POSITIONS"
    unfolding xs by (rule run_steps_count)
  have "distinct (map fst (portfolio initial_state))"
    by (simp add: initial_state_def)
  then show
    "distinct (map fst (portfolio (scan v ex symbols (run_cycles cycles initial_state))))"
    unfolding xs by (rule run_steps_distinct)
next
  assume "\<exists>b. trade_log (step v' ex' symbol st) = trade_log st @ [b] \<and> Type b = BUY"
  then obtain b where b: "trade_log (step v' ex' symbol st) = trade_log st @ [b]"
    and t: "Type b = BUY" by blast
  from step_cases [of v' ex' symbol st] show "length (portfolio st) < MAX_POSITIONS"
  proof (elim disjE conjE exE)
    assume "step v' ex' symbol st = st"
    with b show ?thesis by simp
  next
    assume "length (portfolio st) < MAX_POSITIONS"
    then show ?thesis .
  next
    fix pos
    assume "step v' ex' symbol st
      = sell (pl_format v') symbol (price_of ex' symbol) pos st"
    with b t show ?thesis by (auto simp: sell_effect(3))
  qed
next
  assume g: "length (portfolio st) < length (portfolio (step v' ex' symbol st))"
  from step_cases [of v' ex' symbol st]
  show "\<exists>b. trade_log (step v' ex' symbol st) = trade_log st @ [b] \<and> Type b = BUY"
  proof (elim disjE conjE exE)
    assume "step v' ex' symbol st = st"
    with g show ?thesis by simp
  next
    assume "buy symbol (price_of ex' symbol) st = Some (step v' ex' symbol st)"
    then show ?thesis by (simp add: buy_effect(3))
  next
    fix pos
    assume "step v' ex' symbol st
      = sell (pl_format v') symbol (price_of ex' symbol) pos st"
    then have "length (portfolio (step v' ex' symbol st)) \<le> length (portfolio st)"
      by (simp add: sell_effect(2) length_delete_le)
    with g show ?thesis by simp
  qed
qed

theorem position_count_bounded_witness:
  "(\<exists>b. trade_log (step Revised ex_bullish ''BBB/USDT'' initial_state)
          = trade_log initial_state @ [b] \<and> Type b = BUY)
   \<and> length (portfolio initial_state) < MAX_POSITIONS
   \<and> length (portfolio initial_state)
       < length (portfolio (step Revised ex_bullish ''BBB/USDT'' initial_state))
   \<and> length (portfolio (scan Original ex_bullish [''CCC/USDT'', ''DDD/USDT'', ''EEE/USDT'']
         (run_cycles [(Original, ex_bullish)] initial_state))) = 4
   \<and> length (portfolio (scan Original ex_bullish [''CCC/USDT'', ''DDD/USDT'', ''EEE/USDT'']
         (run_cycles [(Original, ex_bullish)] initial_state))) \<le> MAX_POSITIONS"
proof -
  have s: "step Revised ex_bullish ''BBB/USDT'' initial_state = st_held"
    by (simp add: step_def example_market_data strategy_defs initial_state_def st_held_def)
  have n: "length (portfolio (scan Original ex_bullish [''CCC/USDT'', ''DDD/USDT'', ''EEE/USDT'']
         (run_cycles [(Original, ex_bullish)] initial_state))) = 4"
    by (simp add: scan_def cycle_def run_strategy_1_def example_top_coins
        example_market_data strategy_defs initial_state_def)
  show ?thesis
    using n position_count_bounded [of Original ex_bullish
        "[''CCC/USDT'', ''DDD/USDT'', ''EEE/USDT'']" "[(Original, ex_bullish)]"
        Revised ex_bullish "''BBB/USDT''" initial_state]
    unfolding s
    by (simp add: st_held_def initial_state_def MAX_POSITIONS_def)
qed

subsection \<open>The valuation of the dashboard\<close>

lemma sum_list_filter_zero:
  "sum_list (map f (filter (\<lambda>x. \<not> Q x) xs))
     = sum_list (map (\<lambda>x. if Q x then (0::real) else f x) xs)"
  by (induction xs) simp_all

text \<open>
  Claim C2, amended. The dashboard leaves the session state as it found it, and the
  holdings value is the sum over all positions of \<open>amt\<close> times the last close, a
  position whose frame is empty counting for nothing.
\<close>

theorem valuation_read:
  "fst (dashboard ex st) = st
   \<and> current_holdings_val ex st =
       sum_list (map (\<lambda>sp. if get_market_data ex (fst sp) = [] then 0
                            else amt (snd sp) * price_of ex (fst sp)) (portfolio st))"
  by (simp add: dashboard_def Let_def current_holdings_val_def price_of_def
      sum_list_filter_zero cong: if_cong)

text \<open>
  The claim as stated fails: with the exchange down, the position of \<open>st_held\<close> is
  valued at 0, not at its entry value of 250000.
\<close>

theorem valuation_read_counterexample:
  "get_market_data ex_down ''BBB/USDT'' = []
   \<and> map_of (portfolio st_held) ''BBB/USDT'' = Some \<lparr>amt = 25000 / 11, avg_price = 110\<rparr>
   \<and> current_holdings_val ex_down st_held = 0
   \<and> current_holdings_val ex_down st_held \<noteq> 25000 / 11 * 110"
  by (simp add: example_market_data current_holdings_val_def st_held_def)

subsection \<open>Trades per cycle\<close>

text \<open>
  Claim C1. The first definition, the one the script calls, has no \<open>break\<close>: on an
  exchange where both ranked symbols are bullish it buys both in one cycle. The second
  definition buys one.
\<close>

theorem first_definition_trades_twice:
  "fetch_top_coins ex_bullish 10 = [''BBB/USDT'', ''AAA/USDT'']
   \<and> map Type (trade_log (run_strategy_1 ex_bullish initial_state)) = [BUY, BUY]
   \<and> map Symbol (trade_log (run_strategy_1 ex_bullish initial_state))
       = [''BBB/USDT'', ''AAA/USDT'']
   \<and> map Type (trade_log (fst (script_run True False ex_bullish initial_state))) = [BUY, BUY]
   \<and> map Type (trade_log (run_strategy_2 ex_bullish initial_state)) = [BUY]"
  by (simp add: script_run_def dashboard_def run_strategy_1_def run_strategy_2_def
      example_top_coins example_market_data strategy_defs initial_state_def st_held_def)

text \<open>The second definition logs at most one trade in a cycle.\<close>

lemma step_2_log:
  "trade_log (fst (strategy_step_2 ex symbol st)) = trade_log st
     \<and> \<not> snd (strategy_step_2 ex symbol st)
   \<or> (\<exists>t. trade_log (fst (strategy_step_2 ex symbol st)) = trade_log st @ [t])
     \<and> snd (strategy_step_2 ex symbol st)"
  using step_2_cases [of ex symbol st]
  by (auto simp: sell_effect(3) dest: buy_effect(3))

lemma scan_2_one_trade:
  "\<exists>ts. trade_log (scan_2 ex symbols st) = trade_log st @ ts \<and> length ts \<le> 1"
proof (induction symbols arbitrary: st)
  case Nil
  then show ?case by simp
next
  case (Cons symbol rest)
  obtain st' brk where s: "strategy_step_2 ex symbol st = (st', brk)"
    by (cases "strategy_step_2 ex symbol st")
  show ?case
  proof (cases brk)
    case True
    then show ?thesis using s step_2_log [of ex symbol st] by auto
  next
    case False
    then have "trade_log st' = trade_log st" using s step_2_log [of ex symbol st] by auto
    then show ?thesis using s False Cons.IH [of st'] by simp
  qed
qed

lemma run_strategy_2_one_trade:
  "\<exists>ts. trade_log (run_strategy_2 ex st) = trade_log st @ ts \<and> length ts \<le> 1"
  unfolding run_strategy_2_def Let_def by (rule scan_2_one_trade)

subsection \<open>The fallback watchlist\<close>

text \<open>
  Claim C4. When the ticker call raises, the first definition, the one the script
  calls, scans nothing, although the candles of the default watchlist are bullish; the
  second definition scans the default watchlist and buys its first symbol.
\<close>

theorem first_definition_has_no_fallback:
  "fetch_top_coins ex_no_ranking 10 = []
   \<and> run_strategy_1 ex_no_ranking initial_state = initial_state
   \<and> fst (script_run True False ex_no_ranking initial_state)
       = initial_state\<lparr>is_running := True\<rparr>
   \<and> map Symbol (trade_log (run_strategy_2 ex_no_ranking initial_state)) = [''BTC/USDT'']"
  by (simp add: script_run_def dashboard_def run_strategy_1_def run_strategy_2_def
      default_watchlist_def
      example_top_coins example_market_data strategy_defs initial_state_def)

text \<open>The second definition falls back on the default watchlist.\<close>

lemma run_strategy_2_fallback:
  "fetch_top_coins ex 10 = [] \<Longrightarrow> run_strategy_2 ex st = scan_2 ex default_watchlist st"
  by (simp add: run_strategy_2_def)

subsection \<open>The cost of a purchase\<close>

text \<open>In exact arithmetic every purchase costs one allocation.\<close>

lemma buy_debits_allocation:
  assumes "buy symbol p st = Some st'"
  shows "balance st' = balance st - ALLOCATION_PER_TRADE"
  using buy_Some(1) [OF assms] buy_effect(1) [OF assms] by simp

lemmas f64_defs =
  f64_cost_def f64_buy_balance_def f64_div_def f64_mul_def f64_sub_def f64_round_def
  eval_nat_numeral round_half_even_def pow2_def ALLOCATION_PER_TRADE_value

text \<open>
  The rounding agrees with the binary64 value of 0.1 and leaves a representable number
  as it is.
\<close>

lemma f64_round_tenth: "f64_round (1 / 10) = Some (3602879701896397 / 2 ^ 55)"
  by (simp add: f64_defs)

lemma f64_round_allocation: "f64_round 250000 = Some 250000"
  by (simp add: f64_defs)

lemma f64_qty_49: "f64_div ALLOCATION_PER_TRADE 49 = Some (701219150367347 / 2 ^ 37)"
  by (simp add: f64_defs)

lemma f64_cost_49: "f64_cost 49 = Some (250000 + 1 / 2 ^ 35)"
  by (simp add: f64_defs)

lemma f64_cost_110: "f64_cost 110 = Some (250000 - 1 / 2 ^ 35)"
  by (simp add: f64_defs)

lemma f64_first_buy: "f64_buy_balance 49 1000000 = Some 750000"
  by (simp add: f64_buy_balance_def f64_cost_49 f64_sub_def f64_round_def
      eval_nat_numeral round_half_even_def pow2_def)

lemma f64_second_buy: "f64_buy_balance 49 750000 = Some 500000"
  by (simp add: f64_buy_balance_def f64_cost_49 f64_sub_def f64_round_def
      eval_nat_numeral round_half_even_def pow2_def)

lemma f64_third_buy: "f64_buy_balance 49 500000 = Some (250000 - 1 / 2 ^ 35)"
  by (simp add: f64_buy_balance_def f64_cost_49 f64_sub_def f64_round_def
      eval_nat_numeral round_half_even_def pow2_def)

lemma f64_fourth_buy: "f64_buy_balance 49 (250000 - 1 / 2 ^ 35) = None"
  by (simp add: f64_buy_balance_def f64_cost_49)

text \<open>
  Claim C10. In binary64 arithmetic the cost computed at a price of 49 is
  250000.00000000003, one unit in the last place above the allocation (and at 110 it is
  one unit below). Three purchases at 49 take the balance from 1000000 to 750000, to
  500000 and to 249999.99999999997, and the fourth is refused for lack of funds.
\<close>

theorem f64_cost_is_not_the_allocation:
  "f64_cost 49 = Some (250000 + 1 / 2 ^ 35)
   \<and> f64_cost 110 = Some (250000 - 1 / 2 ^ 35)
   \<and> f64_buy_balance 49 1000000 = Some 750000
   \<and> f64_buy_balance 49 750000 = Some 500000
   \<and> f64_buy_balance 49 500000 = Some (250000 - 1 / 2 ^ 35)
   \<and> f64_buy_balance 49 (250000 - 1 / 2 ^ 35) = None"
  using f64_cost_49 f64_cost_110 f64_first_buy f64_second_buy f64_third_buy f64_fourth_buy
  by (intro conjI)

section \<open>Properties in binary64 arithmetic\<close>

subsection \<open>The rounding\<close>

lemmas f64_eval =
  f64_div_def f64_mul_def f64_sub_def f64_add_def f64_round_def f64_round2_def
  eval_nat_numeral round_half_even_def pow2_def ALLOCATION_PER_TRADE_value

lemmas f64_values =
  f64_qty_110_def f64_basis_110_def f64_revenue_95_def f64_pnl_95_def f64_logged_95_def
  f64_balance_95_def f64_revenue_120_def f64_pnl_120_def f64_balance_120_def

lemma f64_literal_1001: "f64_round (1001 / 1000) = Some f64_profit_factor"
  by (simp add: f64_eval f64_profit_factor_def)

text \<open>A rounded result is within half a unit in the last place of the exact one.\<close>

lemma pow2_pos: "0 < pow2 e"
  by (simp add: pow2_def)

lemma pow2_zero: "pow2 0 = 1"
  by (simp add: pow2_def)

lemma pow2_succ: "pow2 (e + 1) = 2 * pow2 e"
proof (cases "0 \<le> e")
  case True
  then show ?thesis by (simp add: pow2_def nat_add_distrib)
next
  case False
  then have "nat (- e) = Suc (nat (- (e + 1)))" by simp
  then show ?thesis using False by (simp add: pow2_def)
qed

lemma pow2_pred: "pow2 (e - 1) = pow2 e / 2"
  using pow2_succ [of "e - 1"] by simp

lemma f64_normalise_spec:
  assumes "f64_normalise fuel m e = Some (m', e')" and "0 < m" and "- 1074 \<le> e"
  shows "m' * pow2 e' = m * pow2 e \<and> 0 < m' \<and> m' < 2 ^ 53
     \<and> (2 ^ 52 \<le> m' \<or> e' = - 1074)"
  using assms
proof (induction fuel m e rule: f64_normalise.induct)
  case (1 m e)
  then show ?case by simp
next
  case (2 fuel m e)
  show ?case
  proof (cases "m < 2 ^ 52 \<and> - 1074 < e")
    case True
    then have "f64_normalise fuel (m * 2) (e - 1) = Some (m', e')"
      using "2.prems"(1) by simp
    from "2.IH"(1) [OF True this] "2.prems"(2) True
    show ?thesis by (simp add: pow2_pred)
  next
    case False
    show ?thesis
    proof (cases "2 ^ 53 \<le> m")
      case True
      then have "f64_normalise fuel (m / 2) (e + 1) = Some (m', e')"
        using "2.prems"(1) False by simp
      from "2.IH"(2) [OF False True this] "2.prems"(2,3)
      show ?thesis by (simp add: pow2_succ)
    next
      case big: False
      then have "m' = m" "e' = e" using "2.prems"(1) False by auto
      then show ?thesis
        using False big "2.prems"(2,3) by auto
    qed
  qed
qed

lemma round_half_even_near: "\<bar>of_int (round_half_even x) - x\<bar> \<le> 1 / 2"
  unfolding round_half_even_def Let_def
  by (auto simp: abs_if split: if_splits) linarith+

lemma f64_round_error:
  assumes "f64_round x = Some r"
  shows "\<bar>r - x\<bar> \<le> \<bar>x\<bar> / 2 ^ 53 + 1 / 2 ^ 1075"
proof (cases "x = 0")
  case True
  then show ?thesis using assms by (simp add: f64_round_def)
next
  case False
  from assms False obtain m e
    where n: "f64_normalise 2200 \<bar>x\<bar> 0 = Some (m, e)"
      and r: "r = sgn x * of_int (round_half_even m) * pow2 e"
    by (auto simp: f64_round_def Let_def split: option.splits if_splits)
  from f64_normalise_spec [OF n] False
  have eq: "m * pow2 e = \<bar>x\<bar>" and mpos: "0 < m" and cases: "2 ^ 52 \<le> m \<or> e = - 1074"
    by (simp_all add: pow2_zero)
  have "\<bar>r - x\<bar> = \<bar>of_int (round_half_even m) - m\<bar> * pow2 e"
  proof (cases "0 < x")
    case True
    then have "r - x = (of_int (round_half_even m) - m) * pow2 e"
      using eq r by (simp add: algebra_simps)
    then show ?thesis using pow2_pos [of e] by (simp add: abs_mult)
  next
    case neg: False
    then have "x < 0" using False by simp
    then have "r - x = - ((of_int (round_half_even m) - m) * pow2 e)"
      using eq r by (simp add: algebra_simps)
    then show ?thesis using pow2_pos [of e] by (simp add: abs_mult)
  qed
  also have "\<dots> \<le> 1 / 2 * pow2 e"
    using round_half_even_near [of m] pow2_pos [of e]
    by (intro mult_right_mono) simp_all
  finally have half: "\<bar>r - x\<bar> \<le> pow2 e / 2" by simp
  define a where "a = \<bar>x\<bar> / 2 ^ 53"
  define eta where "eta = (1::real) / 2 ^ 1075"
  have a0: "0 \<le> a" by (simp add: a_def)
  have eta0: "0 \<le> eta" by (simp add: eta_def)
  from cases have "pow2 e / 2 \<le> a \<or> pow2 e / 2 = eta"
  proof
    assume big: "2 ^ 52 \<le> m"
    have "pow2 e * 2 ^ 52 \<le> pow2 e * m"
      using big pow2_pos [of e] by (intro mult_left_mono) simp_all
    then have "pow2 e * 2 ^ 52 \<le> \<bar>x\<bar>" using eq by (simp add: mult.commute)
    then have "pow2 e / 2 \<le> a" by (simp add: a_def)
    then show ?thesis ..
  next
    assume "e = - 1074"
    then have "pow2 e / 2 = eta" by (simp add: pow2_def eta_def)
    then show ?thesis ..
  qed
  with half a0 eta0 have "\<bar>r - x\<bar> \<le> a + eta" by linarith
  then show ?thesis by (simp only: a_def eta_def)
qed


subsection \<open>Evaluating the examples\<close>

lemma rounded_mean_examples:
  "rounded_mean 5 [100, 100, 100, 100, 100, 110] = Some 102"
  "rounded_mean 5 [100, 100, 100, 105, 95] = Some 100"
  by (simp_all add: rounded_mean_def f64_eval)

lemma initial_state_fields:
  "balance initial_state = 1000000" "portfolio initial_state = []"
  "trade_log initial_state = []"
  by (simp_all add: initial_state_def START_CAPITAL_def)

lemma f64_st_held_fields:
  "balance f64_st_held = 750000"
  "portfolio f64_st_held = [(''BBB/USDT'', \<lparr>amt = f64_qty_110, avg_price = 110\<rparr>)]"
  "trade_log f64_st_held = [\<lparr>Symbol = ''BBB/USDT'', Type = BUY, Price = 110,
                    Qty = f64_qty_110, PL = 0\<rparr>]"
  "is_running f64_st_held = False"
  by (simp_all add: f64_st_held_def)

lemma f64_buy_110: "f64_buy ''BBB/USDT'' 110 initial_state = Some (f64_st_held, True)"
  by (simp add: f64_buy_def f64_eval initial_state_def START_CAPITAL_def f64_st_held_def
      f64_qty_110_def)

lemma f64_sale_arith:
  "f64_mul f64_qty_110 110 = Some f64_basis_110"
  "f64_mul f64_qty_110 95 = Some f64_revenue_95"
  "f64_sub f64_revenue_95 f64_basis_110 = Some f64_pnl_95"
  "f64_add 750000 f64_revenue_95 = Some f64_balance_95"
  "f64_round2 f64_pnl_95 = Some f64_logged_95"
  "f64_mul f64_qty_110 120 = Some f64_revenue_120"
  "f64_sub f64_revenue_120 f64_basis_110 = Some f64_pnl_120"
  "f64_add 750000 f64_revenue_120 = Some f64_balance_120"
  by (simp_all add: f64_eval f64_values)

lemma f64_target_110:
  "f64_mul 110 f64_profit_factor = Some (3874151210701291 / 2 ^ 45)"
  by (simp add: f64_eval f64_profit_factor_def)

lemma f64_sell_95:
  "f64_sell f64_round2 ''BBB/USDT'' 95 \<lparr>amt = f64_qty_110, avg_price = 110\<rparr> f64_st_held
     = Some f64_st_sold_95"
  by (simp add: f64_sell_def f64_sale_arith f64_st_held_fields f64_st_sold_95_def
      f64_st_held_def)

lemma f64_sell_120:
  "f64_sell Some ''BBB/USDT'' 120 \<lparr>amt = f64_qty_110, avg_price = 110\<rparr> f64_st_held
     = Some f64_st_sold_120"
  by (simp add: f64_sell_def f64_sale_arith f64_st_held_fields f64_st_sold_120_def
      f64_st_held_def)

lemma f64_st_held_reached:
  "f64_step rounded_mean Revised ex_bullish ''BBB/USDT'' initial_state = Some f64_st_held"
  by (simp add: f64_step_def f64_strategy_step_2_def example_market_data candle_at_def
      f64_rolling_mean_last_def rounded_mean_examples nan_gt_def f64_buy_110 Let_def
      initial_state_fields MAX_POSITIONS_def)

lemma f64_idle_pass:
  "f64_step rounded_mean Original ex_bullish ''BBB/USDT'' f64_st_held = Some f64_st_held"
  by (simp add: f64_step_def f64_strategy_step_1_def example_market_data candle_at_def
      f64_rolling_mean_last_def rounded_mean_examples nan_lt_def Let_def
      f64_st_held_fields)

lemma f64_st_sold_95_reached:
  "f64_step rounded_mean Original ex_bearish ''BBB/USDT'' f64_st_held = Some f64_st_sold_95"
  by (simp add: f64_step_def f64_strategy_step_1_def example_market_data candle_at_def
      f64_rolling_mean_last_def rounded_mean_examples nan_lt_def f64_sell_95 Let_def
      f64_st_held_fields)

lemma f64_example_run:
  "f64_run_steps rounded_mean
     [(Revised, ex_bullish, ''BBB/USDT''), (Original, ex_bullish, ''BBB/USDT''),
      (Original, ex_bearish, ''BBB/USDT'')] initial_state = Some f64_st_sold_95"
  by (simp add: f64_st_held_reached f64_idle_pass f64_st_sold_95_reached)

text \<open>
  Three computations on which the exact reading and binary64 differ. With exactly
  249999.99999999997 in cash a purchase at 110 is made and leaves 0. The profit target of
  an entry at 1000 is 1000.9999999999999, below a price of 1001. A profit of exactly
  -1953.125 is logged as -1953.12.
\<close>

lemma f64_exact_funds:
  "f64_buy_balance 110 (250000 - 1 / 2 ^ 35) = Some 0"
  by (simp add: f64_buy_balance_def f64_cost_110 f64_sub_def f64_round_def)

lemma f64_target_1000:
  "f64_mul 1000 f64_profit_factor = Some (8804889115230207 / 2 ^ 43)"
  "(8804889115230207 / 2 ^ 43 :: real) < 1001"
  by (simp_all add: f64_eval f64_profit_factor_def)

lemma f64_round2_tie:
  "f64_round2 (- (15625 / 8)) = Some (- (2147478150441861 / 2 ^ 40))"
  by (simp add: f64_eval)

subsection \<open>What a pass does\<close>

lemma f64_pl_format_simps:
  "f64_pl_format Original = f64_round2" "f64_pl_format Revised = Some"
  by (rule ext, simp add: f64_pl_format_def)+

lemma f64_buy_cases:
  assumes "f64_buy symbol p st = Some (st', t)"
  shows "(\<not> t \<and> st' = st)
     \<or> (t \<and> (\<exists>qty cost. f64_div ALLOCATION_PER_TRADE p = Some qty
          \<and> f64_mul qty p = Some cost \<and> cost \<le> balance st
          \<and> f64_sub (balance st) cost = Some (balance st')
          \<and> portfolio st' = AList.update symbol \<lparr>amt = qty, avg_price = p\<rparr> (portfolio st)
          \<and> trade_log st' = trade_log st @
               [\<lparr>Symbol = symbol, Type = BUY, Price = p, Qty = qty, PL = 0\<rparr>]))"
  using assms
  by (auto simp: f64_buy_def bind_eq_Some_conv split: option.splits if_splits)

lemma f64_sell_Some:
  assumes "f64_sell fmt symbol p pos st = Some st'"
  shows "\<exists>revenue basis pnl pl. f64_mul (amt pos) p = Some revenue
     \<and> f64_mul (amt pos) (avg_price pos) = Some basis
     \<and> f64_sub revenue basis = Some pnl \<and> fmt pnl = Some pl
     \<and> f64_add (balance st) revenue = Some (balance st')
     \<and> portfolio st' = AList.delete symbol (portfolio st)
     \<and> trade_log st' = trade_log st @
          [\<lparr>Symbol = symbol, Type = SELL, Price = p, Qty = amt pos, PL = pl\<rparr>]"
  using assms
  by (auto simp: f64_sell_def bind_eq_Some_conv)

lemma f64_step_1_cases:
  assumes "f64_strategy_step_1 rm ex symbol st = Some st'"
  shows "st' = st
     \<or> (map_of (portfolio st) symbol = None \<and> length (portfolio st) < MAX_POSITIONS
        \<and> f64_buy symbol (price_of ex symbol) st = Some (st', True))
     \<or> (\<exists>pos. map_of (portfolio st) symbol = Some pos
        \<and> f64_sell f64_round2 symbol (price_of ex symbol) pos st = Some st')"
proof (cases "map_of (portfolio st) symbol")
  case None
  show ?thesis
  proof (cases "f64_buy symbol (price_of ex symbol) st")
    case n: None
    then show ?thesis
      using assms None
      by (auto simp: f64_strategy_step_1_def price_of_def Let_def split: if_splits)
  next
    case (Some r)
    obtain s t where r: "r = (s, t)" by (cases r)
    from f64_buy_cases [of symbol "price_of ex symbol" st s t] Some r
    have "t \<or> s = st" by auto
    then show ?thesis
      using assms None Some r
      by (auto simp: f64_strategy_step_1_def price_of_def Let_def split: if_splits)
  qed
next
  case (Some pos)
  then show ?thesis
    using assms
    by (auto simp: f64_strategy_step_1_def price_of_def Let_def split: if_splits)
qed

lemma f64_step_2_cases:
  assumes "f64_strategy_step_2 rm ex symbol st = Some (st', t)"
  shows "(\<not> t \<and> st' = st)
     \<or> (t \<and> map_of (portfolio st) symbol = None \<and> length (portfolio st) < MAX_POSITIONS
        \<and> f64_buy symbol (price_of ex symbol) st = Some (st', True))
     \<or> (t \<and> (\<exists>pos. map_of (portfolio st) symbol = Some pos
        \<and> f64_sell Some symbol (price_of ex symbol) pos st = Some st'))"
proof (cases "map_of (portfolio st) symbol")
  case None
  show ?thesis
  proof (cases "f64_buy symbol (price_of ex symbol) st")
    case n: None
    then show ?thesis
      using assms None
      by (auto simp: f64_strategy_step_2_def price_of_def Let_def split: if_splits)
  next
    case (Some r)
    obtain s u where r: "r = (s, u)" by (cases r)
    from f64_buy_cases [of symbol "price_of ex symbol" st s u] Some r
    have "u \<or> (\<not> u \<and> s = st)" by auto
    then show ?thesis
      using assms None Some r
      by (auto simp: f64_strategy_step_2_def price_of_def Let_def split: if_splits)
  qed
next
  case (Some pos)
  then show ?thesis
    using assms
    by (auto simp: f64_strategy_step_2_def price_of_def Let_def bind_eq_Some_conv
        split: if_splits)
qed

lemma f64_step_cases:
  assumes "f64_step rm v ex symbol st = Some st'"
  shows "st' = st
     \<or> (map_of (portfolio st) symbol = None \<and> length (portfolio st) < MAX_POSITIONS
        \<and> f64_buy symbol (price_of ex symbol) st = Some (st', True))
     \<or> (\<exists>pos. map_of (portfolio st) symbol = Some pos
        \<and> f64_sell (f64_pl_format v) symbol (price_of ex symbol) pos st = Some st')"
proof (cases v)
  case Original
  then show ?thesis
    using assms f64_step_1_cases [of rm ex symbol st st']
    by (simp add: f64_step_def f64_pl_format_simps)
next
  case Revised
  then obtain t where "f64_strategy_step_2 rm ex symbol st = Some (st', t)"
    using assms by (auto simp: f64_step_def)
  from f64_step_2_cases [OF this] show ?thesis
    using Revised by (auto simp: f64_pl_format_simps)
qed



subsection \<open>A purchase without funds\<close>

text \<open>
  Claim C8. A pass over a symbol that is not held, at a price for which the cost as the
  script computes it, the binary64 product of the binary64 quotient
  \<open>ALLOCATION_PER_TRADE / price\<close> and the price, exceeds the cash balance, changes
  nothing in either definition, whatever the rolling mean: balance, portfolio and trade
  log are those of before, and the second definition does not \<open>break\<close>. The failure is
  the untaken branch of \<open>if balance >= cost\<close>; the script raises and reports nothing.
\<close>

theorem f64_buy_without_funds_is_noop:
  assumes "map_of (portfolio st) symbol = None"
    and "f64_cost (price_of ex symbol) = Some cost"
    and "balance st < cost"
  shows "f64_strategy_step_1 rm ex symbol st = Some st
     \<and> f64_strategy_step_2 rm ex symbol st = Some (st, False)"
proof -
  have "f64_buy symbol (price_of ex symbol) st = Some (st, False)"
    using assms(2,3) by (auto simp: f64_buy_def f64_cost_def split: option.splits)
  then show ?thesis
    using assms(1)
    by (simp add: f64_strategy_step_1_def f64_strategy_step_2_def price_of_def Let_def)
qed


theorem f64_buy_without_funds_is_noop_witness:
  "map_of (portfolio st_low_cash) ''AAA/USDT'' = None
   \<and> length (portfolio st_low_cash) < MAX_POSITIONS
   \<and> nan_gt (price_of ex_bullish ''AAA/USDT'')
        (f64_rolling_mean_last rounded_mean 5
           (map close (get_market_data ex_bullish ''AAA/USDT'')))
   \<and> f64_cost (price_of ex_bullish ''AAA/USDT'') = Some (250000 - 1 / 2 ^ 35)
   \<and> balance st_low_cash < 250000 - 1 / 2 ^ 35
   \<and> f64_strategy_step_1 rounded_mean ex_bullish ''AAA/USDT'' st_low_cash = Some st_low_cash
   \<and> f64_strategy_step_2 rounded_mean ex_bullish ''AAA/USDT'' st_low_cash
       = Some (st_low_cash, False)"
proof -
  have p: "price_of ex_bullish ''AAA/USDT'' = 110"
    by (simp add: price_of_def example_market_data candle_at_def)
  have h1: "map_of (portfolio st_low_cash) ''AAA/USDT'' = None"
    by (simp add: st_low_cash_def)
  have h2: "f64_cost (price_of ex_bullish ''AAA/USDT'') = Some (250000 - 1 / 2 ^ 35)"
    unfolding p by (rule f64_cost_110)
  have h3: "balance st_low_cash < 250000 - 1 / 2 ^ 35"
    by (simp add: st_low_cash_def)
  have h4: "nan_gt (price_of ex_bullish ''AAA/USDT'')
        (f64_rolling_mean_last rounded_mean 5
           (map close (get_market_data ex_bullish ''AAA/USDT'')))"
    by (simp add: p example_market_data candle_at_def f64_rolling_mean_last_def
        rounded_mean_examples nan_gt_def)
  have h5: "length (portfolio st_low_cash) < MAX_POSITIONS"
    by (simp add: st_low_cash_def MAX_POSITIONS_def)
  from f64_buy_without_funds_is_noop [OF h1 h2 h3, of rounded_mean] h1 h2 h3 h4 h5
  show ?thesis by blast
qed

subsection \<open>Fewer than five candles\<close>

text \<open>
  Claim C3, amended. With fewer than five candles the mean is NaN. The first definition
  then changes nothing. The second buys nothing, and leaves a held symbol alone unless the
  frame is not empty and the last close is above the profit target, the binary64 product
  of the entry price and the literal 1.001: its profit exit does not look at the mean, and
  the position is sold.
\<close>

theorem f64_short_history:
  assumes "length (get_market_data ex symbol) < 5"
  shows "f64_strategy_step_1 rm ex symbol st = Some st
     \<and> f64_strategy_step_2 rm ex symbol st =
         (case map_of (portfolio st) symbol of
            None \<Rightarrow> Some (st, False)
          | Some pos \<Rightarrow>
              if get_market_data ex symbol = [] then Some (st, False)
              else do {
                target \<leftarrow> f64_mul (avg_price pos) f64_profit_factor;
                if target < price_of ex symbol
                then map_option (\<lambda>st'. (st', True))
                       (f64_sell Some symbol (price_of ex symbol) pos st)
                else Some (st, False)
              })"
  using assms
  by (auto simp: f64_strategy_step_1_def f64_strategy_step_2_def price_of_def Let_def
      f64_rolling_mean_last_def nan_gt_def nan_lt_def split: option.splits
      cong: if_cong)


text \<open>
  The claim as stated fails for the second definition: one candle at 120, a position
  bought at 110, and the position is sold.
\<close>

theorem f64_short_history_counterexample:
  "length (get_market_data ex_short ''BBB/USDT'') < 5
   \<and> map_of (portfolio f64_st_held) ''BBB/USDT''
       = Some \<lparr>amt = f64_qty_110, avg_price = 110\<rparr>
   \<and> f64_strategy_step_2 rounded_mean ex_short ''BBB/USDT'' f64_st_held
       = Some (f64_st_sold_120, True)
   \<and> portfolio f64_st_sold_120 = []
   \<and> map Type (trade_log f64_st_sold_120) = [BUY, SELL]
   \<and> f64_st_sold_120 \<noteq> f64_st_held"
  by (simp add: example_market_data f64_strategy_step_2_def candle_at_def Let_def
      f64_rolling_mean_last_def nan_lt_def f64_st_held_fields f64_target_110 f64_sell_120)
    (simp add: f64_st_sold_120_def f64_st_held_def)

theorem f64_short_history_witness:
  "length (get_market_data ex_short ''BBB/USDT'') < 5
   \<and> f64_strategy_step_1 rounded_mean ex_short ''BBB/USDT'' f64_st_held = Some f64_st_held
   \<and> f64_strategy_step_2 rounded_mean ex_short ''AAA/USDT'' f64_st_held
       = Some (f64_st_held, False)
   \<and> f64_strategy_step_2 rounded_mean ex_short ''BBB/USDT'' f64_st_held
       = Some (f64_st_sold_120, True)"
proof -
  have h: "length (get_market_data ex_short ''BBB/USDT'') < 5"
    by (simp add: example_market_data)
  have h': "length (get_market_data ex_short ''AAA/USDT'') < 5"
    by (simp add: example_market_data)
  have p: "price_of ex_short ''BBB/USDT'' = 120"
    by (simp add: price_of_def example_market_data candle_at_def)
  show ?thesis
    using h f64_short_history [OF h, of rounded_mean f64_st_held]
      f64_short_history [OF h', of rounded_mean f64_st_held]
    by (simp add: p f64_st_held_fields example_market_data f64_target_110 f64_sell_120)
qed

subsection \<open>A sale\<close>

text \<open>
  Claim C7, amended. When a pass over a held symbol changes the state, it has added the
  revenue to the balance, the revenue being the binary64 product of the amount stored in
  the position and the price and the sum being rounded to binary64; it has deleted the
  position, and appended one SELL record. The profit of the record is the binary64
  difference of the revenue and the binary64 product of the amount and the entry price in
  the second definition, and that value rounded to two decimals, the way numpy rounds, in
  the first.
\<close>

theorem f64_sell_effects:
  assumes "map_of (portfolio st) symbol = Some pos"
    and "f64_step rm v ex symbol st = Some st'" and "st' \<noteq> st"
  shows "\<exists>revenue basis pnl pl.
       f64_mul (amt pos) (price_of ex symbol) = Some revenue
     \<and> f64_add (balance st) revenue = Some (balance st')
     \<and> portfolio st' = AList.delete symbol (portfolio st)
     \<and> map_of (portfolio st') symbol = None
     \<and> f64_mul (amt pos) (avg_price pos) = Some basis
     \<and> f64_sub revenue basis = Some pnl
     \<and> f64_pl_format v pnl = Some pl
     \<and> trade_log st' = trade_log st @
          [\<lparr>Symbol = symbol, Type = SELL, Price = price_of ex symbol,
            Qty = amt pos, PL = pl\<rparr>]"
proof -
  from f64_step_cases [OF assms(2)] assms(1,3)
  have "f64_sell (f64_pl_format v) symbol (price_of ex symbol) pos st = Some st'"
    by auto
  from f64_sell_Some [OF this] show ?thesis
    by (auto simp: delete_conv)
qed



text \<open>
  The claim as stated fails for the first definition: the position of
  \<open>f64_st_held\<close> sold at 95 is logged with a profit of -34090.91, which is neither the
  computed profit -34090.90909090909 nor the exact difference.
\<close>

theorem f64_sell_effects_counterexample:
  "map_of (portfolio f64_st_held) ''BBB/USDT'' = Some \<lparr>amt = f64_qty_110, avg_price = 110\<rparr>
   \<and> price_of ex_bearish ''BBB/USDT'' = 95
   \<and> f64_strategy_step_1 rounded_mean ex_bearish ''BBB/USDT'' f64_st_held
       = Some f64_st_sold_95
   \<and> PL (last (trade_log f64_st_sold_95)) = f64_logged_95
   \<and> f64_logged_95 \<noteq> f64_pnl_95
   \<and> f64_logged_95 \<noteq> f64_qty_110 * 95 - f64_qty_110 * 110"
proof -
  have "f64_strategy_step_1 rounded_mean ex_bearish ''BBB/USDT'' f64_st_held
       = Some f64_st_sold_95"
    using f64_st_sold_95_reached by (simp add: f64_step_def)
  moreover have "price_of ex_bearish ''BBB/USDT'' = 95"
    by (simp add: price_of_def example_market_data candle_at_def)
  moreover have "f64_logged_95 \<noteq> f64_pnl_95"
    and "f64_logged_95 \<noteq> f64_qty_110 * 95 - f64_qty_110 * 110"
    by (simp_all add: f64_values)
  ultimately show ?thesis
    by (simp add: f64_st_held_fields f64_st_sold_95_def)
qed

theorem f64_sell_effects_witness:
  "map_of (portfolio f64_st_held) ''BBB/USDT'' = Some \<lparr>amt = f64_qty_110, avg_price = 110\<rparr>
   \<and> f64_step rounded_mean Original ex_bearish ''BBB/USDT'' f64_st_held = Some f64_st_sold_95
   \<and> f64_st_sold_95 \<noteq> f64_st_held
   \<and> f64_mul f64_qty_110 95 = Some f64_revenue_95
   \<and> f64_add (balance f64_st_held) f64_revenue_95 = Some (balance f64_st_sold_95)
   \<and> portfolio f64_st_sold_95 = AList.delete ''BBB/USDT'' (portfolio f64_st_held)
   \<and> f64_pl_format Original f64_pnl_95 = Some f64_logged_95
   \<and> (\<exists>revenue basis pnl pl.
        f64_mul (amt \<lparr>amt = f64_qty_110, avg_price = 110\<rparr>)
            (price_of ex_bearish ''BBB/USDT'') = Some revenue
      \<and> f64_add (balance f64_st_held) revenue = Some (balance f64_st_sold_95)
      \<and> portfolio f64_st_sold_95 = AList.delete ''BBB/USDT'' (portfolio f64_st_held)
      \<and> map_of (portfolio f64_st_sold_95) ''BBB/USDT'' = None
      \<and> f64_mul (amt \<lparr>amt = f64_qty_110, avg_price = 110\<rparr>)
            (avg_price \<lparr>amt = f64_qty_110, avg_price = 110\<rparr>) = Some basis
      \<and> f64_sub revenue basis = Some pnl
      \<and> f64_pl_format Original pnl = Some pl
      \<and> trade_log f64_st_sold_95 = trade_log f64_st_held @
           [\<lparr>Symbol = ''BBB/USDT'', Type = SELL, Price = price_of ex_bearish ''BBB/USDT'',
             Qty = amt \<lparr>amt = f64_qty_110, avg_price = 110\<rparr>, PL = pl\<rparr>])"
proof -
  have h1: "map_of (portfolio f64_st_held) ''BBB/USDT''
      = Some \<lparr>amt = f64_qty_110, avg_price = 110\<rparr>"
    by (simp add: f64_st_held_fields)
  note h2 = f64_st_sold_95_reached
  have h3: "f64_st_sold_95 \<noteq> f64_st_held"
    by (simp add: f64_st_sold_95_def f64_st_held_def)
  have e: "f64_mul f64_qty_110 95 = Some f64_revenue_95"
    "f64_add (balance f64_st_held) f64_revenue_95 = Some (balance f64_st_sold_95)"
    "portfolio f64_st_sold_95 = AList.delete ''BBB/USDT'' (portfolio f64_st_held)"
    "f64_pl_format Original f64_pnl_95 = Some f64_logged_95"
    by (simp_all add: f64_sale_arith f64_st_held_fields f64_st_sold_95_def f64_pl_format_simps)
  from f64_sell_effects [OF h1 h2 h3] h1 h2 h3 e show ?thesis by blast
qed

subsection \<open>A purchase followed by a sale\<close>

lemma f64_step_effect_cases:
  assumes "f64_step rm v ex symbol st = Some st'"
  shows "st' = st
   \<or> (\<exists>p qty cost. f64_mul qty p = Some cost
        \<and> f64_sub (balance st) cost = Some (balance st')
        \<and> map_of (portfolio st') symbol = Some \<lparr>amt = qty, avg_price = p\<rparr>
        \<and> trade_log st' = trade_log st @
            [\<lparr>Symbol = symbol, Type = BUY, Price = p, Qty = qty, PL = 0\<rparr>])
   \<or> (\<exists>p pos revenue pl. map_of (portfolio st) symbol = Some pos
        \<and> f64_mul (amt pos) p = Some revenue
        \<and> f64_add (balance st) revenue = Some (balance st')
        \<and> trade_log st' = trade_log st @
            [\<lparr>Symbol = symbol, Type = SELL, Price = p, Qty = amt pos, PL = pl\<rparr>])"
  using f64_step_cases [OF assms]
proof (elim disjE conjE exE)
  assume "st' = st"
  then show ?thesis by simp
next
  assume "f64_buy symbol (price_of ex symbol) st = Some (st', True)"
  from f64_buy_cases [OF this] obtain qty cost
    where "f64_mul qty (price_of ex symbol) = Some cost"
      and "f64_sub (balance st) cost = Some (balance st')"
      and p: "portfolio st' = AList.update symbol
          \<lparr>amt = qty, avg_price = price_of ex symbol\<rparr> (portfolio st)"
      and "trade_log st' = trade_log st @
          [\<lparr>Symbol = symbol, Type = BUY, Price = price_of ex symbol, Qty = qty, PL = 0\<rparr>]"
    by auto
  moreover have "map_of (portfolio st') symbol
      = Some \<lparr>amt = qty, avg_price = price_of ex symbol\<rparr>"
    by (simp add: p update_conv')
  ultimately show ?thesis by blast
next
  fix pos
  assume held: "map_of (portfolio st) symbol = Some pos"
    and "f64_sell (f64_pl_format v) symbol (price_of ex symbol) pos st = Some st'"
  from f64_sell_Some [OF this(2)] held show ?thesis by blast
qed

lemma f64_run_steps_log:
  "f64_run_steps rm xs st = Some st' \<Longrightarrow> \<exists>ts. trade_log st' = trade_log st @ ts"
proof (induction xs arbitrary: st)
  case Nil
  then show ?case by simp
next
  case (Cons x xs)
  from Cons.prems obtain st1
    where s1: "f64_step rm (fst x) (fst (snd x)) (snd (snd x)) st = Some st1"
      and r: "f64_run_steps rm xs st1 = Some st'"
    by (auto simp: bind_eq_Some_conv)
  obtain ts where ts: "trade_log st' = trade_log st1 @ ts"
    using Cons.IH [OF r] by blast
  from f64_step_effect_cases [OF s1] show ?case
    using ts by (elim disjE exE conjE) auto
qed

lemma f64_run_steps_idle:
  "f64_run_steps rm xs st = Some st' \<Longrightarrow> trade_log st' = trade_log st \<Longrightarrow> st' = st"
proof (induction xs arbitrary: st)
  case Nil
  then show ?case by simp
next
  case (Cons x xs)
  from Cons.prems(1) obtain st1
    where s1: "f64_step rm (fst x) (fst (snd x)) (snd (snd x)) st = Some st1"
      and r: "f64_run_steps rm xs st1 = Some st'"
    by (auto simp: bind_eq_Some_conv)
  obtain ts where ts: "trade_log st' = trade_log st1 @ ts"
    using f64_run_steps_log [OF r] by blast
  from f64_step_effect_cases [OF s1] show ?case
  proof (elim disjE exE conjE)
    assume e: "st1 = st"
    from r have "f64_run_steps rm xs st = Some st'" by (simp only: e)
    then show ?thesis using Cons.prems(2) by (rule Cons.IH)
  next
    fix p qty cost
    assume "trade_log st1 = trade_log st @
        [\<lparr>Symbol = snd (snd x), Type = BUY, Price = p, Qty = qty, PL = 0\<rparr>]"
    with ts Cons.prems(2) show ?thesis by simp
  next
    fix p pos revenue pl
    assume "trade_log st1 = trade_log st @
        [\<lparr>Symbol = snd (snd x), Type = SELL, Price = p, Qty = amt pos, PL = pl\<rparr>]"
    with ts Cons.prems(2) show ?thesis by simp
  qed
qed

lemma f64_sale_only:
  assumes "f64_run_steps rm xs st = Some st'"
    and "trade_log st' = trade_log st @ [s]" and "Type s = SELL"
  shows "\<exists>pos revenue. map_of (portfolio st) (Symbol s) = Some pos \<and> Qty s = amt pos
           \<and> f64_mul (amt pos) (Price s) = Some revenue
           \<and> f64_add (balance st) revenue = Some (balance st')"
  using assms(1,2)
proof (induction xs arbitrary: st)
  case Nil
  then show ?case by simp
next
  case (Cons x xs)
  from Cons.prems(1) obtain st1
    where s1: "f64_step rm (fst x) (fst (snd x)) (snd (snd x)) st = Some st1"
      and r: "f64_run_steps rm xs st1 = Some st'"
    by (auto simp: bind_eq_Some_conv)
  obtain ts where ts: "trade_log st' = trade_log st1 @ ts"
    using f64_run_steps_log [OF r] by blast
  from f64_step_effect_cases [OF s1] show ?case
  proof (elim disjE exE conjE)
    assume e: "st1 = st"
    from r have "f64_run_steps rm xs st = Some st'" by (simp only: e)
    then show ?thesis using Cons.prems(2) by (rule Cons.IH)
  next
    fix p qty cost
    assume "trade_log st1 = trade_log st @
        [\<lparr>Symbol = snd (snd x), Type = BUY, Price = p, Qty = qty, PL = 0\<rparr>]"
    with ts Cons.prems(2) assms(3) show ?thesis by auto
  next
    fix p pos revenue pl
    assume held: "map_of (portfolio st) (snd (snd x)) = Some pos"
      and rev: "f64_mul (amt pos) p = Some revenue"
      and bal: "f64_add (balance st) revenue = Some (balance st1)"
      and log: "trade_log st1 = trade_log st @
        [\<lparr>Symbol = snd (snd x), Type = SELL, Price = p, Qty = amt pos, PL = pl\<rparr>]"
    from ts Cons.prems(2) log
    have s: "s = \<lparr>Symbol = snd (snd x), Type = SELL, Price = p, Qty = amt pos, PL = pl\<rparr>"
      and "ts = []"
      by auto
    then have "st' = st1"
      using ts f64_run_steps_idle [OF r] by simp
    then show ?thesis
      using held rev bal s by auto
  qed
qed

lemma f64_buy_sell_chain:
  assumes "f64_run_steps rm xs st = Some st'"
    and "trade_log st' = trade_log st @ [b, s]"
    and "Type b = BUY" and "Type s = SELL" and "Symbol s = Symbol b"
  shows "Qty s = Qty b
     \<and> (\<exists>cost mid revenue. f64_mul (Qty b) (Price b) = Some cost
          \<and> f64_sub (balance st) cost = Some mid
          \<and> f64_mul (Qty b) (Price s) = Some revenue
          \<and> f64_add mid revenue = Some (balance st'))"
  using assms(1,2)
proof (induction xs arbitrary: st)
  case Nil
  then show ?case by simp
next
  case (Cons x xs)
  from Cons.prems(1) obtain st1
    where s1: "f64_step rm (fst x) (fst (snd x)) (snd (snd x)) st = Some st1"
      and r: "f64_run_steps rm xs st1 = Some st'"
    by (auto simp: bind_eq_Some_conv)
  obtain ts where ts: "trade_log st' = trade_log st1 @ ts"
    using f64_run_steps_log [OF r] by blast
  from f64_step_effect_cases [OF s1] show ?case
  proof (elim disjE exE conjE)
    assume e: "st1 = st"
    from r have "f64_run_steps rm xs st = Some st'" by (simp only: e)
    then show ?thesis using Cons.prems(2) by (rule Cons.IH)
  next
    fix p qty cost
    assume cost: "f64_mul qty p = Some cost"
      and bal: "f64_sub (balance st) cost = Some (balance st1)"
      and held: "map_of (portfolio st1) (snd (snd x)) = Some \<lparr>amt = qty, avg_price = p\<rparr>"
      and log: "trade_log st1 = trade_log st @
        [\<lparr>Symbol = snd (snd x), Type = BUY, Price = p, Qty = qty, PL = 0\<rparr>]"
    from ts Cons.prems(2) log
    have b: "b = \<lparr>Symbol = snd (snd x), Type = BUY, Price = p, Qty = qty, PL = 0\<rparr>"
      and "ts = [s]"
      by auto
    then have "trade_log st' = trade_log st1 @ [s]"
      using ts by simp
    from f64_sale_only [OF r this assms(4)] obtain pos revenue
      where pos: "map_of (portfolio st1) (Symbol s) = Some pos" and q: "Qty s = amt pos"
        and rev: "f64_mul (amt pos) (Price s) = Some revenue"
        and fin: "f64_add (balance st1) revenue = Some (balance st')"
      by blast
    have "Symbol s = snd (snd x)" using assms(5) b by simp
    with pos held have "pos = \<lparr>amt = qty, avg_price = p\<rparr>" by simp
    then show ?thesis
      using cost bal rev fin q b by auto
  next
    fix p pos revenue pl
    assume "trade_log st1 = trade_log st @
        [\<lparr>Symbol = snd (snd x), Type = SELL, Price = p, Qty = amt pos, PL = pl\<rparr>]"
    with ts Cons.prems(2) assms(3) show ?thesis by auto
  qed
qed


lemma f64_ledger_error:
  assumes "f64_mul q pb = Some cost" and "f64_sub b cost = Some mid"
    and "f64_mul q ps = Some revenue" and "f64_add mid revenue = Some fin"
  shows "\<bar>fin - (b + (ps - pb) * q)\<bar>
     \<le> (\<bar>q * pb\<bar> + \<bar>b - cost\<bar> + \<bar>q * ps\<bar> + \<bar>mid + revenue\<bar>) / 2 ^ 53 + 4 / 2 ^ 1075"
proof -
  define eta where "eta = (1::real) / 2 ^ 1075"
  define a0 where "a0 = \<bar>q * pb\<bar> / 2 ^ 53"
  define a1 where "a1 = \<bar>b - cost\<bar> / 2 ^ 53"
  define a2 where "a2 = \<bar>q * ps\<bar> / 2 ^ 53"
  define a3 where "a3 = \<bar>mid + revenue\<bar> / 2 ^ 53"
  have e0: "\<bar>cost - q * pb\<bar> \<le> a0 + eta"
    using f64_round_error [of "q * pb" cost] assms(1)
    by (simp only: f64_mul_def a0_def eta_def)
  have e1: "\<bar>mid - (b - cost)\<bar> \<le> a1 + eta"
    using f64_round_error [of "b - cost" mid] assms(2)
    by (simp only: f64_sub_def a1_def eta_def)
  have e2: "\<bar>revenue - q * ps\<bar> \<le> a2 + eta"
    using f64_round_error [of "q * ps" revenue] assms(3)
    by (simp only: f64_mul_def a2_def eta_def)
  have e3: "\<bar>fin - (mid + revenue)\<bar> \<le> a3 + eta"
    using f64_round_error [of "mid + revenue" fin] assms(4)
    by (simp only: f64_add_def a3_def eta_def)
  have "fin - (b + (ps - pb) * q)
      = (fin - (mid + revenue)) + (mid - (b - cost)) - (cost - q * pb) + (revenue - q * ps)"
    by (simp add: algebra_simps)
  then have "\<bar>fin - (b + (ps - pb) * q)\<bar> \<le> a0 + a1 + a2 + a3 + 4 * eta"
    using e0 e1 e2 e3 by linarith
  also have "a0 + a1 + a2 + a3 + 4 * eta
      = (\<bar>q * pb\<bar> + \<bar>b - cost\<bar> + \<bar>q * ps\<bar> + \<bar>mid + revenue\<bar>) / 2 ^ 53 + 4 / 2 ^ 1075"
    by (simp only: a0_def a1_def a2_def a3_def eta_def add_divide_distrib times_divide_eq_right
        mult_1_right)
  finally show ?thesis .
qed


text \<open>
  Claim C6, amended. Take any sequence of passes, of either definition and on any
  exchanges, during which exactly two trades are logged: a BUY and then a SELL of the same
  symbol. The sale sells the quantity bought. The final balance is the balance before the
  purchase, minus the cost, plus the revenue, where the cost and the revenue are the
  binary64 products of the quantity with the purchase price and with the sale price, and
  the difference and the sum are rounded to binary64. It differs from the balance before
  the purchase plus (sale price - purchase price) times the quantity by no more than the
  four roundings allow: 2^-53 times the sum of the four exact results, plus 2^-1073.
\<close>

theorem f64_buy_sell_ledger:
  assumes "f64_run_steps rm xs st = Some st'"
    and "trade_log st' = trade_log st @ [b, s]"
    and "Type b = BUY" and "Type s = SELL" and "Symbol s = Symbol b"
  shows "Qty s = Qty b
     \<and> (\<exists>cost mid revenue. f64_mul (Qty b) (Price b) = Some cost
          \<and> f64_sub (balance st) cost = Some mid
          \<and> f64_mul (Qty b) (Price s) = Some revenue
          \<and> f64_add mid revenue = Some (balance st')
          \<and> \<bar>balance st' - (balance st + (Price s - Price b) * Qty b)\<bar>
              \<le> (\<bar>Qty b * Price b\<bar> + \<bar>balance st - cost\<bar> + \<bar>Qty b * Price s\<bar>
                  + \<bar>mid + revenue\<bar>) / 2 ^ 53 + 4 / 2 ^ 1075)"
proof -
  from f64_buy_sell_chain [OF assms] obtain cost mid revenue
    where q: "Qty s = Qty b"
      and c: "f64_mul (Qty b) (Price b) = Some cost"
      and m: "f64_sub (balance st) cost = Some mid"
      and r: "f64_mul (Qty b) (Price s) = Some revenue"
      and f: "f64_add mid revenue = Some (balance st')"
    by blast
  from f64_ledger_error [OF c m r f] q c m r f show ?thesis by blast
qed

text \<open>
  The claim as stated fails: after a purchase at 110 and a sale at 95 the balance is
  965909.0909090908, which is neither the exact value of
  \<open>1000000 + (95 - 110) * qty\<close> nor its binary64 value 965909.0909090909.
\<close>

theorem f64_buy_sell_ledger_counterexample:
  "f64_run_steps rounded_mean
     [(Revised, ex_bullish, ''BBB/USDT''), (Original, ex_bullish, ''BBB/USDT''),
      (Original, ex_bearish, ''BBB/USDT'')] initial_state = Some f64_st_sold_95
   \<and> map Type (trade_log f64_st_sold_95) = [BUY, SELL]
   \<and> map Qty (trade_log f64_st_sold_95) = [f64_qty_110, f64_qty_110]
   \<and> balance f64_st_sold_95 = f64_balance_95
   \<and> f64_balance_95 \<noteq> balance initial_state + (95 - 110) * f64_qty_110
   \<and> f64_mul (- 15) f64_qty_110 \<bind> f64_add 1000000 = Some (8297095912727273 / 2 ^ 33)
   \<and> f64_balance_95 \<noteq> 8297095912727273 / 2 ^ 33"
proof -
  have "f64_balance_95 \<noteq> balance initial_state + (95 - 110) * f64_qty_110"
    and "f64_balance_95 \<noteq> 8297095912727273 / 2 ^ 33"
    by (simp_all add: f64_values initial_state_fields)
  moreover have "f64_mul (- 15) f64_qty_110 \<bind> f64_add 1000000
      = Some (8297095912727273 / 2 ^ 33)"
    by (simp add: f64_eval f64_values)
  ultimately show ?thesis
    using f64_example_run by (simp add: f64_st_sold_95_def)
qed

theorem f64_buy_sell_ledger_witness:
  "f64_run_steps rounded_mean
     [(Revised, ex_bullish, ''BBB/USDT''), (Original, ex_bullish, ''BBB/USDT''),
      (Original, ex_bearish, ''BBB/USDT'')] initial_state = Some f64_st_sold_95
   \<and> trade_log f64_st_sold_95 = trade_log initial_state @
       [\<lparr>Symbol = ''BBB/USDT'', Type = BUY, Price = 110, Qty = f64_qty_110, PL = 0\<rparr>,
        \<lparr>Symbol = ''BBB/USDT'', Type = SELL, Price = 95, Qty = f64_qty_110,
          PL = f64_logged_95\<rparr>]
   \<and> f64_mul f64_qty_110 110 = Some f64_basis_110
   \<and> f64_sub (balance initial_state) f64_basis_110 = Some 750000
   \<and> f64_mul f64_qty_110 95 = Some f64_revenue_95
   \<and> f64_add 750000 f64_revenue_95 = Some (balance f64_st_sold_95)
   \<and> \<bar>balance f64_st_sold_95 - (balance initial_state + (95 - 110) * f64_qty_110)\<bar>
       \<le> (\<bar>f64_qty_110 * 110\<bar> + \<bar>balance initial_state - f64_basis_110\<bar>
           + \<bar>f64_qty_110 * 95\<bar> + \<bar>750000 + f64_revenue_95\<bar>) / 2 ^ 53 + 4 / 2 ^ 1075"
proof -
  let ?b = "\<lparr>Symbol = ''BBB/USDT'', Type = BUY, Price = 110, Qty = f64_qty_110, PL = 0\<rparr>"
  let ?s = "\<lparr>Symbol = ''BBB/USDT'', Type = SELL, Price = 95, Qty = f64_qty_110,
     PL = f64_logged_95\<rparr>"
  note h1 = f64_example_run
  have h2: "trade_log f64_st_sold_95 = trade_log initial_state @ [?b, ?s]"
    by (simp add: f64_st_sold_95_def initial_state_fields)
  have e: "f64_mul f64_qty_110 110 = Some f64_basis_110"
    "f64_sub (balance initial_state) f64_basis_110 = Some 750000"
    "f64_mul f64_qty_110 95 = Some f64_revenue_95"
    "f64_add 750000 f64_revenue_95 = Some (balance f64_st_sold_95)"
    by (simp_all add: f64_sale_arith f64_st_sold_95_def)
      (simp add: initial_state_fields f64_eval f64_values)
  have "Qty ?s = Qty ?b
     \<and> (\<exists>cost mid revenue. f64_mul (Qty ?b) (Price ?b) = Some cost
          \<and> f64_sub (balance initial_state) cost = Some mid
          \<and> f64_mul (Qty ?b) (Price ?s) = Some revenue
          \<and> f64_add mid revenue = Some (balance f64_st_sold_95)
          \<and> \<bar>balance f64_st_sold_95 - (balance initial_state + (Price ?s - Price ?b) * Qty ?b)\<bar>
              \<le> (\<bar>Qty ?b * Price ?b\<bar> + \<bar>balance initial_state - cost\<bar> + \<bar>Qty ?b * Price ?s\<bar>
                  + \<bar>mid + revenue\<bar>) / 2 ^ 53 + 4 / 2 ^ 1075)"
    by (rule f64_buy_sell_ledger [OF h1 h2]) simp_all
  then obtain cost mid revenue
    where "f64_mul f64_qty_110 110 = Some cost"
      and "f64_sub (balance initial_state) cost = Some mid"
      and "f64_mul f64_qty_110 95 = Some revenue"
      and "\<bar>balance f64_st_sold_95 - (balance initial_state + (95 - 110) * f64_qty_110)\<bar>
              \<le> (\<bar>f64_qty_110 * 110\<bar> + \<bar>balance initial_state - cost\<bar> + \<bar>f64_qty_110 * 95\<bar>
                  + \<bar>mid + revenue\<bar>) / 2 ^ 53 + 4 / 2 ^ 1075"
    by (auto simp only: trade.simps)
  with e have "\<bar>balance f64_st_sold_95 - (balance initial_state + (95 - 110) * f64_qty_110)\<bar>
       \<le> (\<bar>f64_qty_110 * 110\<bar> + \<bar>balance initial_state - f64_basis_110\<bar>
           + \<bar>f64_qty_110 * 95\<bar> + \<bar>750000 + f64_revenue_95\<bar>) / 2 ^ 53 + 4 / 2 ^ 1075"
    by (simp only: option.inject)
  with h1 h2 e show ?thesis by blast
qed

subsection \<open>The invariants once more\<close>

text \<open>
  The sign of the balance and the number of positions do not turn on the rounding: the
  passes in binary64 arithmetic keep both, whatever the rolling mean.
\<close>

lemma round_half_even_nonneg: "0 \<le> x \<Longrightarrow> 0 \<le> round_half_even x"
  by (auto simp: round_half_even_def Let_def)

lemma f64_round_nonneg:
  assumes "f64_round x = Some r" and "0 \<le> x"
  shows "0 \<le> r"
proof (cases "x = 0")
  case True
  then show ?thesis using assms by (simp add: f64_round_def)
next
  case False
  from assms False obtain m e
    where n: "f64_normalise 2200 \<bar>x\<bar> 0 = Some (m, e)"
      and r: "r = sgn x * of_int (round_half_even m) * pow2 e"
    by (auto simp: f64_round_def Let_def split: option.splits if_splits)
  from f64_normalise_spec [OF n] False have "0 < m" by simp
  then have "0 \<le> round_half_even m" by (simp add: round_half_even_nonneg)
  then show ?thesis
    using r assms(2) False pow2_pos [of e] by (simp add: sgn_real_def)
qed

lemma f64_step_cash_inv:
  assumes "f64_step rm v ex symbol st = Some st'"
    and "nonneg_closes ex" and "cash_inv st"
  shows "cash_inv st'"
  using f64_step_cases [OF assms(1)]
proof (elim disjE conjE exE)
  assume "st' = st"
  with assms(3) show ?thesis by simp
next
  assume none: "map_of (portfolio st) symbol = None"
    and b: "f64_buy symbol (price_of ex symbol) st = Some (st', True)"
  have df: "list_all (\<lambda>c. 0 \<le> close c) (get_market_data ex symbol)"
    using assms(2) by (simp add: nonneg_closes_def)
  have "st' \<noteq> st"
    using f64_buy_cases [OF b] by auto
  have pos: "0 \<le> price_of ex symbol"
  proof (cases "get_market_data ex symbol = []")
    case True
    then have "f64_step rm v ex symbol st = Some st"
      by (cases v) (simp_all add: f64_step_def f64_strategy_step_1_def
          f64_strategy_step_2_def)
    with assms(1) \<open>st' \<noteq> st\<close> show ?thesis by simp
  next
    case False
    then show ?thesis using df by (simp add: price_of_def last_nonneg)
  qed
  from f64_buy_cases [OF b] obtain qty cost
    where q: "f64_div ALLOCATION_PER_TRADE (price_of ex symbol) = Some qty"
      and le: "cost \<le> balance st"
      and bal: "f64_sub (balance st) cost = Some (balance st')"
      and p: "portfolio st' = AList.update symbol
          \<lparr>amt = qty, avg_price = price_of ex symbol\<rparr> (portfolio st)"
    by auto
  have "0 \<le> qty"
    using q pos
    by (auto simp: f64_div_def ALLOCATION_PER_TRADE_value split: if_splits
        intro: f64_round_nonneg)
  moreover have "0 \<le> balance st'"
    using bal le by (auto simp: f64_sub_def intro: f64_round_nonneg)
  ultimately show ?thesis
    using assms(3) by (simp add: cash_inv_def p list_all_update)
next
  fix pos
  assume held: "map_of (portfolio st) symbol = Some pos"
    and s: "f64_sell (f64_pl_format v) symbol (price_of ex symbol) pos st = Some st'"
  have df: "list_all (\<lambda>c. 0 \<le> close c) (get_market_data ex symbol)"
    using assms(2) by (simp add: nonneg_closes_def)
  have "(symbol, pos) \<in> set (portfolio st)" using held by (rule map_of_SomeD)
  with assms(3) have a: "0 \<le> amt pos" by (auto simp: cash_inv_def list_all_iff)
  have "st' \<noteq> st"
    using f64_sell_Some [OF s] by auto
  have p0: "0 \<le> price_of ex symbol"
  proof (cases "get_market_data ex symbol = []")
    case True
    then have "f64_step rm v ex symbol st = Some st"
      by (cases v) (simp_all add: f64_step_def f64_strategy_step_1_def
          f64_strategy_step_2_def)
    with assms(1) \<open>st' \<noteq> st\<close> show ?thesis by simp
  next
    case False
    then show ?thesis using df by (simp add: price_of_def last_nonneg)
  qed
  from f64_sell_Some [OF s] obtain revenue
    where rev: "f64_mul (amt pos) (price_of ex symbol) = Some revenue"
      and bal: "f64_add (balance st) revenue = Some (balance st')"
      and p: "portfolio st' = AList.delete symbol (portfolio st)"
    by auto
  have "0 \<le> revenue"
    using rev a p0 by (auto simp: f64_mul_def intro: f64_round_nonneg)
  with bal assms(3) have "0 \<le> balance st'"
    by (auto simp: f64_add_def cash_inv_def intro: f64_round_nonneg)
  then show ?thesis
    using assms(3) by (simp add: cash_inv_def p list_all_delete)
qed

lemma f64_run_steps_cash_inv:
  assumes "f64_run_steps rm xs st = Some st'"
    and "list_all (\<lambda>x. nonneg_closes (fst (snd x))) xs" and "cash_inv st"
  shows "0 \<le> balance st'"
proof -
  have "cash_inv st'"
    using assms(1,2,3)
  proof (induction xs arbitrary: st)
    case Nil
    then show ?case by simp
  next
    case (Cons x xs)
    from Cons.prems(1) obtain st1
      where s1: "f64_step rm (fst x) (fst (snd x)) (snd (snd x)) st = Some st1"
        and r: "f64_run_steps rm xs st1 = Some st'"
      by (auto simp: bind_eq_Some_conv)
    have "cash_inv st1"
      using f64_step_cash_inv [OF s1 _ Cons.prems(3)] Cons.prems(2) by simp
    with Cons.IH [OF r] Cons.prems(2) show ?case by simp
  qed
  then show ?thesis by (simp add: cash_inv_def)
qed

lemma f64_step_count:
  assumes "f64_step rm v ex symbol st = Some st'"
    and "length (portfolio st) \<le> MAX_POSITIONS"
  shows "length (portfolio st') \<le> MAX_POSITIONS"
  using f64_step_cases [OF assms(1)]
proof (elim disjE conjE exE)
  assume "st' = st"
  with assms(2) show ?thesis by simp
next
  assume "map_of (portfolio st) symbol = None" and "length (portfolio st) < MAX_POSITIONS"
    and "f64_buy symbol (price_of ex symbol) st = Some (st', True)"
  then show ?thesis
    using f64_buy_cases [of symbol "price_of ex symbol" st st' True]
    by (auto simp: length_update_absent)
next
  fix pos
  assume "f64_sell (f64_pl_format v) symbol (price_of ex symbol) pos st = Some st'"
  from f64_sell_Some [OF this] have "length (portfolio st') \<le> length (portfolio st)"
    by (auto simp: length_delete_le)
  with assms(2) show ?thesis by simp
qed

lemma f64_run_steps_count:
  "f64_run_steps rm xs st = Some st' \<Longrightarrow> length (portfolio st) \<le> MAX_POSITIONS
     \<Longrightarrow> length (portfolio st') \<le> MAX_POSITIONS"
proof (induction xs arbitrary: st)
  case Nil
  then show ?case by simp
next
  case (Cons x xs)
  from Cons.prems(1) obtain st1
    where s1: "f64_step rm (fst x) (fst (snd x)) (snd (snd x)) st = Some st1"
      and r: "f64_run_steps rm xs st1 = Some st'"
    by (auto simp: bind_eq_Some_conv)
  from Cons.IH [OF r f64_step_count [OF s1 Cons.prems(2)]] show ?case .
qed


end
